theory Spec2Isabelle
  imports Complex_Main "HOL-Library.List_Lexorder"
begin

section \<open>Python strings\<close>

text \<open>
  A Python \<open>str\<close> is a sequence of Unicode code points; it is modelled as a list of
  natural numbers, so that \<open>len\<close>, comparison (\<open>sorted\<close> compares code point by code
  point, a proper prefix being smaller) and the Cyrillic constants of the source are
  what Python sees. \<open>ascii\<close> turns an ASCII literal into its code points.
\<close>

type_synonym pystr = "nat list"

definition ascii :: "string \<Rightarrow> pystr" where
  "ascii s = map (of_char :: char \<Rightarrow> nat) s"

text \<open>\<open>str.isspace\<close> on one code point, which is also what \<open>\s\<close> matches in a \<open>str\<close> pattern.\<close>

definition isspace :: "nat \<Rightarrow> bool" where
  "isspace c = ((9 \<le> c \<and> c \<le> 13) \<or> (28 \<le> c \<and> c \<le> 32) \<or> c = 133 \<or> c = 160 \<or> c = 5760
                \<or> (8192 \<le> c \<and> c \<le> 8202) \<or> c = 8232 \<or> c = 8233 \<or> c = 8239 \<or> c = 8287
                \<or> c = 12288)"

definition lstrip :: "pystr \<Rightarrow> pystr" where
  "lstrip s = dropWhile isspace s"

definition rstrip :: "pystr \<Rightarrow> pystr" where
  "rstrip s = rev (dropWhile isspace (rev s))"

definition strip :: "pystr \<Rightarrow> pystr" where
  "strip s = rstrip (lstrip s)"

definition startswith :: "pystr \<Rightarrow> pystr \<Rightarrow> bool" where
  "startswith s p = (take (length p) s = p)"

text \<open>\<open>s.split(sep)\<close> for a separator of one code point.\<close>

fun split_on :: "nat \<Rightarrow> pystr \<Rightarrow> pystr list" where
  "split_on c [] = [[]]"
| "split_on c (x # xs) =
     (if x = c then [] # split_on c xs
      else (case split_on c xs of [] \<Rightarrow> [[x]] | p # ps \<Rightarrow> (x # p) # ps))"

text \<open>The exceptions the modelled code can raise.\<close>

datatype pyerr = ValueError | TypeError | OverflowError | FileNotFoundError

text \<open>
  A Python \<open>float\<close>: a finite double is the rational it denotes (both zeros are \<open>Fin 0\<close>).
  Comparison with an \<open>int\<close> literal is exact, a NaN is different from everything.
\<close>

datatype pyfloat = Fin rat | PInf | NInf | NaN

text \<open>
  The two library functions of the parser whose tables are not part of the repository:
  \<open>float(s)\<close> (\<open>None\<close> when it raises \<open>ValueError\<close>) and \<open>str.lower\<close>. Every definition
  below takes them as the parameter \<open>L\<close>.
\<close>

record strlib =
  py_float :: "pystr \<Rightarrow> pyfloat option"
  py_lower :: "pystr \<Rightarrow> pystr"

section \<open>The element tree\<close>

text \<open>
  An \<open>xml.etree.ElementTree.Element\<close>: tag, attribute dictionary, the text before the first
  child (\<open>None\<close> for an element without text) and the children in document order.
\<close>

datatype xml = Element (elem_tag: pystr) (elem_attrib: "(pystr \<times> pystr) list")
                       (elem_text: "pystr option") (elem_children: "xml list")

text \<open>\<open>Element.iter()\<close>: the element itself, then its descendants in document order.\<close>

fun iter_elem :: "xml \<Rightarrow> xml list" where
  "iter_elem (Element t a x cs) = Element t a x cs # concat (map iter_elem cs)"

definition descendants :: "xml \<Rightarrow> xml list" where
  "descendants e = concat (map iter_elem (elem_children e))"

text \<open>\<open>e.findall('.//tag')\<close> and \<open>e.find('.//tag')\<close>.\<close>

definition findall_desc :: "pystr \<Rightarrow> xml \<Rightarrow> xml list" where
  "findall_desc tg e = filter (\<lambda>x. elem_tag x = tg) (descendants e)"

definition find_desc :: "pystr \<Rightarrow> xml \<Rightarrow> xml option" where
  "find_desc tg e = (case findall_desc tg e of [] \<Rightarrow> None | x # _ \<Rightarrow> Some x)"

text \<open>\<open>e.find('.//a/b')\<close>: the first child tagged \<open>b\<close> of a descendant tagged \<open>a\<close>.\<close>

definition find_desc_child :: "pystr \<Rightarrow> pystr \<Rightarrow> xml \<Rightarrow> xml option" where
  "find_desc_child a b e =
     (case concat (map (\<lambda>x. filter (\<lambda>c. elem_tag c = b) (elem_children x)) (findall_desc a e)) of
        [] \<Rightarrow> None | x # _ \<Rightarrow> Some x)"

text \<open>\<open>e.get(key, default)\<close> on the attributes.\<close>

definition elem_get :: "xml \<Rightarrow> pystr \<Rightarrow> pystr \<Rightarrow> pystr" where
  "elem_get e k d = (case map_of (elem_attrib e) k of None \<Rightarrow> d | Some v \<Rightarrow> v)"

text \<open>\<open>t.text if t is not None else ""\<close>: the text may still be \<open>None\<close>.\<close>

definition text_or_empty :: "xml option \<Rightarrow> pystr option" where
  "text_or_empty r = (case r of None \<Rightarrow> Some [] | Some t \<Rightarrow> elem_text t)"

text \<open>\<open>t.text if t is not None and t.text else ""\<close>.\<close>

definition text_if_any :: "xml option \<Rightarrow> pystr" where
  "text_if_any r = (case r of None \<Rightarrow> [] | Some t \<Rightarrow> (case elem_text t of None \<Rightarrow> [] | Some s \<Rightarrow> s))"

section \<open>The domain model\<close>

text \<open>
  \<open>Question\<close> as \<open>Question.from_dict\<close> builds it from the dictionary of
  \<open>_parse_question_element\<close>: the four list fields default to the empty list. The three
  text fields are \<open>None\<close> when the element is there without text. A matching item
  \<open>{'item': i, 'answer': a}\<close> is the pair \<open>(i, a)\<close>.
\<close>

record question =
  qtype :: pystr
  question_text :: "pystr option"
  reference_answer :: "pystr option"
  qname :: "pystr option"
  answers :: "pystr list"
  correct_answers :: "pystr list"
  matching_items :: "(pystr \<times> pystr) list"
  matching_answers :: "pystr list"

record course =
  cname :: pystr
  questions :: "question list"

section \<open>Type extractors\<close>

text \<open>\<open>float(answer_elem.get('fraction', '0'))\<close>; \<open>None\<close> when \<open>float\<close> raises.\<close>

definition fraction_of :: "strlib \<Rightarrow> xml \<Rightarrow> pyfloat option" where
  "fraction_of L answer_elem = py_float L (elem_get answer_elem (ascii ''fraction'') (ascii ''0''))"

text \<open>The loop of the \<open>multichoice\<close> branch over \<open>findall('.//answer')\<close>.\<close>

fun multichoice_loop :: "strlib \<Rightarrow> xml list \<Rightarrow> pystr list \<times> pystr list \<Rightarrow> pyerr + (pystr list \<times> pystr list)" where
  "multichoice_loop L [] (ans, cor) = Inr (ans, cor)"
| "multichoice_loop L (a # as) (ans, cor) =
     (let answer_text = text_if_any (find_desc (ascii ''text'') a) in
      if answer_text \<noteq> [] then
        (case fraction_of L a of
           None \<Rightarrow> Inl ValueError
         | Some fraction \<Rightarrow>
             multichoice_loop L as
               (ans @ [answer_text], if fraction \<noteq> Fin 0 then cor @ [answer_text] else cor))
      else multichoice_loop L as (ans, cor))"

text \<open>
  The loop of the \<open>matching\<close> branch over \<open>findall('.//subquestion')\<close>. The Python set
  \<open>answer_set\<close> is a duplicate-free list; its iteration order does not matter, since it
  is only read through \<open>sorted\<close>.
\<close>

fun matching_loop :: "xml list \<Rightarrow> (pystr \<times> pystr) list \<times> pystr list \<Rightarrow> (pystr \<times> pystr) list \<times> pystr list" where
  "matching_loop [] (items, answer_set) = (items, answer_set)"
| "matching_loop (sq # sqs) (items, answer_set) =
     (let matching_item_text = text_if_any (find_desc (ascii ''text'') sq) in
      case find_desc (ascii ''answer'') sq of
        None \<Rightarrow> matching_loop sqs (items, answer_set)
      | Some answer_elem \<Rightarrow>
          (let correct_answer = text_if_any (find_desc (ascii ''text'') answer_elem) in
           if matching_item_text \<noteq> [] \<and> correct_answer \<noteq> [] then
             matching_loop sqs (items @ [(matching_item_text, correct_answer)],
                                List.insert correct_answer answer_set)
           else matching_loop sqs (items, answer_set)))"

text \<open>The loop of the \<open>shortanswer\<close> branch: \<open>float\<close> is called before the text is looked at.\<close>

fun shortanswer_loop :: "strlib \<Rightarrow> xml list \<Rightarrow> pystr list \<Rightarrow> pyerr + pystr list" where
  "shortanswer_loop L [] cor = Inr cor"
| "shortanswer_loop L (a # as) cor =
     (case fraction_of L a of
        None \<Rightarrow> Inl ValueError
      | Some fraction \<Rightarrow>
          if fraction \<noteq> Fin 0 then
            (let t = text_if_any (find_desc (ascii ''text'') a) in
             if t \<noteq> [] then shortanswer_loop L as (cor @ [t]) else shortanswer_loop L as cor)
          else shortanswer_loop L as cor)"

text \<open>The two Cyrillic labels of the \<open>truefalse\<close> branch (\<open>Verno\<close>, \<open>Neverno\<close>), as code points.\<close>

definition VERNO :: pystr where
  "VERNO = [1042, 1077, 1088, 1085, 1086]"

definition NEVERNO :: pystr where
  "NEVERNO = [1053, 1077, 1074, 1077, 1088, 1085, 1086]"

text \<open>\<open>d[k] = v\<close> on an insertion-ordered dictionary: a known key keeps its place.\<close>

definition dict_set :: "('k \<times> 'v) list \<Rightarrow> 'k \<Rightarrow> 'v \<Rightarrow> ('k \<times> 'v) list" where
  "dict_set d k v =
     (if k \<in> fst ` set d then map (\<lambda>(k', v'). if k' = k then (k', v) else (k', v')) d
      else d @ [(k, v)])"

fun truefalse_loop :: "strlib \<Rightarrow> xml list \<Rightarrow> (pystr \<times> bool) list \<times> pystr list \<Rightarrow> pyerr + ((pystr \<times> bool) list \<times> pystr list)" where
  "truefalse_loop L [] (answer_dict, cor) = Inr (answer_dict, cor)"
| "truefalse_loop L (a # as) (answer_dict, cor) =
     (let t = text_if_any (find_desc (ascii ''text'') a) in
      if t \<noteq> [] then
        (let answer_text = py_lower L (strip t) in
         case fraction_of L a of
           None \<Rightarrow> Inl ValueError
         | Some fraction \<Rightarrow>
             (let russian_answer =
                    (if answer_text = ascii ''true'' then VERNO
                     else if answer_text = ascii ''false'' then NEVERNO
                     else answer_text)
              in truefalse_loop L as
                   (dict_set answer_dict russian_answer (fraction = Fin 100),
                    if fraction = Fin 100 then cor @ [russian_answer] else cor)))
      else truefalse_loop L as (answer_dict, cor))"

text \<open>The ordering of the \<open>truefalse\<close> answers: the two labels first, then the other keys.\<close>

definition truefalse_answers :: "(pystr \<times> bool) list \<Rightarrow> pystr list" where
  "truefalse_answers answer_dict =
     (if VERNO \<in> fst ` set answer_dict then [VERNO] else [])
     @ (if NEVERNO \<in> fst ` set answer_dict then [NEVERNO] else [])
     @ filter (\<lambda>answer. answer \<notin> set [VERNO, NEVERNO]) (map fst answer_dict)"

text \<open>\<open>_parse_question_element\<close>, followed by \<open>Question.from_dict\<close>.\<close>

definition parse_question_element :: "strlib \<Rightarrow> xml \<Rightarrow> pyerr + question" where
  "parse_question_element L qe =
     (let q = \<lparr> qtype = elem_get qe (ascii ''type'') [],
                question_text = text_or_empty (find_desc_child (ascii ''questiontext'') (ascii ''text'') qe),
                reference_answer = text_or_empty (find_desc_child (ascii ''referenceanswer'') (ascii ''text'') qe),
                qname = text_or_empty (find_desc_child (ascii ''name'') (ascii ''text'') qe),
                answers = [], correct_answers = [], matching_items = [], matching_answers = [] \<rparr>
      in
      if qtype q = ascii ''multichoice'' then
        (case multichoice_loop L (findall_desc (ascii ''answer'') qe) ([], []) of
           Inl e \<Rightarrow> Inl e
         | Inr (ans, cor) \<Rightarrow> Inr (q\<lparr>answers := ans, correct_answers := cor\<rparr>))
      else if qtype q = ascii ''matching'' then
        (case matching_loop (findall_desc (ascii ''subquestion'') qe) ([], []) of
           (items, answer_set) \<Rightarrow>
             Inr (q\<lparr>matching_items := items, matching_answers := sort answer_set\<rparr>))
      else if qtype q = ascii ''shortanswer'' then
        (case shortanswer_loop L (findall_desc (ascii ''answer'') qe) [] of
           Inl e \<Rightarrow> Inl e
         | Inr cor \<Rightarrow>
             Inr (q\<lparr>correct_answers := cor,
                    reference_answer := Some (if cor \<noteq> [] then hd cor else [])\<rparr>))
      else if qtype q = ascii ''truefalse'' then
        (case truefalse_loop L (findall_desc (ascii ''answer'') qe) ([], []) of
           Inl e \<Rightarrow> Inl e
         | Inr (answer_dict, cor) \<Rightarrow>
             Inr (q\<lparr>answers := truefalse_answers answer_dict, correct_answers := cor\<rparr>))
      else Inr q)"

section \<open>Grouping questions into courses\<close>

text \<open>
  \<open>XMLParser.CATEGORY_PREFIX\<close>: \<open>$module$/top/\<close> followed by the Cyrillic name of the
  default question bank category, as code points.
\<close>

definition CATEGORY_PREFIX :: pystr where
  "CATEGORY_PREFIX =
     ascii ''$module$/top/''
     @ [1055, 1086, 32, 1091, 1084, 1086, 1083, 1095, 1072, 1085, 1080, 1102, 32, 1076, 1083, 1103,
        32, 1041, 1072, 1085, 1082, 32, 1074, 1086, 1087, 1088, 1086, 1089, 1086, 1074, 32, 1082,
        1091, 1088, 1089, 1072, 32, 1054, 1094, 1077, 1085, 1086, 1095, 1085, 1099, 1077, 32, 1084,
        1072, 1090, 1077, 1088, 1080, 1072, 1083, 1099]"

text \<open>The Cyrillic name (\<open>Bez kategorii\<close>) of the course of the questions before any category.\<close>

definition UNCATEGORIZED :: pystr where
  "UNCATEGORIZED = [1041, 1077, 1079, 32, 1082, 1072, 1090, 1077, 1075, 1086, 1088, 1080, 1080]"

text \<open>\<open>_extract_course_name\<close>: the last non-blank segment of the path below the prefix.\<close>

definition extract_course_name :: "xml \<Rightarrow> pystr option" where
  "extract_course_name category_element =
     (case find_desc_child (ascii ''category'') (ascii ''text'') category_element of
        None \<Rightarrow> None
      | Some category_text_elem \<Rightarrow>
          (case elem_text category_text_elem of
             None \<Rightarrow> None
           | Some tx \<Rightarrow>
               (let category_path = strip tx in
                if \<not> startswith category_path CATEGORY_PREFIX then None
                else
                  (let relative_path = strip (drop (length CATEGORY_PREFIX) category_path) in
                   if relative_path = [] \<or> \<not> startswith relative_path (ascii ''/'') then None
                   else
                     (let relative_path = drop 1 relative_path in
                      if relative_path = [] then None
                      else
                        (let parts = map strip (filter (\<lambda>part. strip part \<noteq> [])
                                                      (split_on 47 relative_path))
                         in if parts \<noteq> [] then Some (last parts) else None))))))"

text \<open>The local variables of the loop of \<open>parse_courses\<close>.\<close>

record pstate =
  courses :: "course list"
  current_course_name :: "pystr option"
  current_course :: "course option"
  last_category_name :: "pystr option"

text \<open>\<open>if current_course is not None and len(current_course) > 0: courses.append(current_course)\<close>\<close>

definition flush_course :: "pstate \<Rightarrow> course list" where
  "flush_course st =
     (case current_course st of
        None \<Rightarrow> courses st
      | Some c \<Rightarrow> if length (questions c) > 0 then courses st @ [c] else courses st)"

text \<open>
  The \<open>while\<close> loop of \<open>parse_courses\<close> over the list \<open>all_elements\<close>; an exception of
  \<open>_parse_question_element\<close> leaves the loop.
\<close>

fun parse_courses_loop :: "strlib \<Rightarrow> xml list \<Rightarrow> pstate \<Rightarrow> pyerr + pstate" where
  "parse_courses_loop L [] st = Inr st"
| "parse_courses_loop L (question_elem # rest) st =
     (if elem_get question_elem (ascii ''type'') [] = ascii ''category'' then
        (case extract_course_name question_elem of
           None \<Rightarrow> parse_courses_loop L rest st
         | Some category_name \<Rightarrow>
             if category_name \<noteq> [] then
               parse_courses_loop L rest
                 (st\<lparr>courses := flush_course st,
                     last_category_name := Some category_name,
                     current_course_name := None,
                     current_course := None\<rparr>)
             else parse_courses_loop L rest st)
      else
        (let st1 = (case last_category_name st of
                      None \<Rightarrow> st
                    | Some nm \<Rightarrow>
                        if current_course st = None then
                          st\<lparr>current_course_name := Some nm,
                              current_course := Some \<lparr>cname = nm, questions = []\<rparr>,
                              last_category_name := None\<rparr>
                        else st)
         in case current_course st1 of
              Some c \<Rightarrow>
                (case parse_question_element L question_elem of
                   Inl e \<Rightarrow> Inl e
                 | Inr q \<Rightarrow>
                     parse_courses_loop L rest
                       (st1\<lparr>current_course := Some (c\<lparr>questions := questions c @ [q]\<rparr>)\<rparr>))
            | None \<Rightarrow>
                (case parse_question_element L question_elem of
                   Inl e \<Rightarrow> Inl e
                 | Inr q \<Rightarrow>
                     parse_courses_loop L rest
                       (st1\<lparr>current_course_name := Some UNCATEGORIZED,
                            current_course := Some \<lparr>cname = UNCATEGORIZED, questions = [q]\<rparr>\<rparr>))))"

text \<open>
  Lines 92 to 147 of \<open>parse_courses\<close>, on the root element that \<open>ET.fromstring\<close> returned.
\<close>

definition parse_courses_root :: "strlib \<Rightarrow> xml \<Rightarrow> pyerr + course list" where
  "parse_courses_root L root_elem =
     (case parse_courses_loop L (findall_desc (ascii ''question'') root_elem)
             \<lparr>courses = [], current_course_name = None, current_course = None,
              last_category_name = None\<rparr> of
        Inl e \<Rightarrow> Inl e
      | Inr st \<Rightarrow> Inr (flush_course st))"

text \<open>
  \<open>parse_courses\<close>. Reading the file, cleaning it and \<open>ET.fromstring\<close> are outside the
  model: their outcome is the argument \<open>loaded\<close>, either the exception raised
  (\<open>FileNotFoundError\<close>, or \<open>ValueError\<close> for markup that does not parse) or the root.
\<close>

definition parse_courses :: "strlib \<Rightarrow> pyerr + xml \<Rightarrow> pyerr + course list" where
  "parse_courses L loaded = (case loaded of Inl e \<Rightarrow> Inl e | Inr root_elem \<Rightarrow> parse_courses_root L root_elem)"

text \<open>\<open>parse\<close>: the loop \<open>for course in courses: all_questions.extend(course.questions)\<close>.\<close>

fun extend_all :: "question list \<Rightarrow> course list \<Rightarrow> question list" where
  "extend_all all_questions [] = all_questions"
| "extend_all all_questions (c # cs) = extend_all (all_questions @ questions c) cs"

definition parse :: "strlib \<Rightarrow> pyerr + xml \<Rightarrow> pyerr + question list" where
  "parse L loaded = (case parse_courses L loaded of Inl e \<Rightarrow> Inl e | Inr cs \<Rightarrow> Inr (extend_all [] cs))"

section \<open>The sanitizer\<close>

text \<open>\<open>s.replace(c, r)\<close> for a single code point \<open>c\<close>.\<close>

definition replace_char :: "nat \<Rightarrow> pystr \<Rightarrow> pystr \<Rightarrow> pystr" where
  "replace_char c r s = concat (map (\<lambda>x. if x = c then r else [x]) s)"

text \<open>\<open>escape_xml_text\<close>: the ampersand first, then \<open><\<close>, \<open>>\<close>, \<open>"\<close> and \<open>'\<close>.\<close>

definition escape_xml_text :: "pystr \<Rightarrow> pystr" where
  "escape_xml_text text =
     (if text = [] then text
      else replace_char 39 (ascii ''&apos;'')
             (replace_char 34 (ascii ''&quot;'')
               (replace_char 62 (ascii ''&gt;'')
                 (replace_char 60 (ascii ''&lt;'')
                   (replace_char 38 (ascii ''&amp;'') text)))))"

text \<open>
  One literal of a pattern under \<open>re.IGNORECASE\<close> against one code point of the text: a
  lower-case ASCII letter also matches its upper-case form, and \<open>i\<close>, \<open>s\<close> and \<open>k\<close> match
  the four letters that case-fold to them (U+0130, U+0131, U+017F, U+212A).
\<close>

definition ci_match :: "nat \<Rightarrow> nat \<Rightarrow> bool" where
  "ci_match p c =
     (c = p \<or> (97 \<le> p \<and> p \<le> 122 \<and> c + 32 = p)
      \<or> (p = 105 \<and> (c = 304 \<or> c = 305)) \<or> (p = 115 \<and> c = 383) \<or> (p = 107 \<and> c = 8490))"

fun ci_startswith :: "pystr \<Rightarrow> pystr \<Rightarrow> bool" where
  "ci_startswith [] s = True"
| "ci_startswith (p # ps) [] = False"
| "ci_startswith (p # ps) (c # cs) = (ci_match p c \<and> ci_startswith ps cs)"

text \<open>
  \<open>re.sub(r'<name[^>]*>', '', s, flags=re.IGNORECASE)\<close>: at the leftmost position where
  \<open><name\<close> is followed, after code points other than \<open>>\<close>, by a \<open>>\<close>, the text up to
  that first \<open>>\<close> is removed and the scan goes on behind it. The pattern
  \<open><br[^>]*/?>\<close> matches the same spans as \<open><br[^>]*>\<close>, the class taking the slash.
\<close>

function sub_open :: "pystr \<Rightarrow> pystr \<Rightarrow> pystr" where
  "sub_open name [] = []"
| "sub_open name (c # cs) =
     (if ci_startswith (60 # name) (c # cs) \<and> 62 \<in> set (drop (length name) cs)
      then sub_open name (drop 1 (dropWhile (\<lambda>x. x \<noteq> 62) (drop (length name) cs)))
      else c # sub_open name cs)"
  by pat_completeness auto
termination
proof (relation "measure (\<lambda>(name, s). length s)")
  show "wf (measure (\<lambda>(name, s). length s))"
    by simp
next
  fix name :: pystr and c :: nat and cs :: pystr
  have "length (dropWhile (\<lambda>x. x \<noteq> 62) (drop (length name) cs)) \<le> length cs"
    using length_dropWhile_le [of "\<lambda>x. x \<noteq> 62" "drop (length name) cs"] by simp
  then show "((name, drop 1 (dropWhile (\<lambda>x. x \<noteq> 62) (drop (length name) cs))), name, c # cs)
               \<in> measure (\<lambda>(name, s). length s)"
    by simp
next
  fix name :: pystr and c :: nat and cs :: pystr
  show "((name, cs), name, c # cs) \<in> measure (\<lambda>(name, s). length s)"
    by simp
qed

text \<open>\<open>re.sub(r'</name>', '', s, flags=re.IGNORECASE)\<close>.\<close>

function sub_close :: "pystr \<Rightarrow> pystr \<Rightarrow> pystr" where
  "sub_close name [] = []"
| "sub_close name (c # cs) =
     (if ci_startswith (ascii ''</'' @ name @ ascii ''>'') (c # cs)
      then sub_close name (drop (length name + 2) cs)
      else c # sub_close name cs)"
  by pat_completeness auto
termination
  by (relation "measure (\<lambda>(name, s). length s)") auto

text \<open>The list \<open>html_tags\<close> of \<open>replace_cdata\<close>, in its order.\<close>

datatype tag_pattern = OpenTag pystr | CloseTag pystr

definition html_tags :: "tag_pattern list" where
  "html_tags =
     [OpenTag (ascii ''p''), CloseTag (ascii ''p''),
      OpenTag (ascii ''br''),
      OpenTag (ascii ''div''), CloseTag (ascii ''div''),
      OpenTag (ascii ''span''), CloseTag (ascii ''span''),
      OpenTag (ascii ''strong''), CloseTag (ascii ''strong''),
      OpenTag (ascii ''b''), CloseTag (ascii ''b''),
      OpenTag (ascii ''em''), CloseTag (ascii ''em''),
      OpenTag (ascii ''i''), CloseTag (ascii ''i''),
      OpenTag (ascii ''u''), CloseTag (ascii ''u''),
      OpenTag (ascii ''ul''), CloseTag (ascii ''ul''),
      OpenTag (ascii ''ol''), CloseTag (ascii ''ol''),
      OpenTag (ascii ''li''), CloseTag (ascii ''li''),
      OpenTag (ascii ''table''), CloseTag (ascii ''table''),
      OpenTag (ascii ''tr''), CloseTag (ascii ''tr''),
      OpenTag (ascii ''td''), CloseTag (ascii ''td''),
      OpenTag (ascii ''th''), CloseTag (ascii ''th'')]"

fun sub_tag :: "tag_pattern \<Rightarrow> pystr \<Rightarrow> pystr" where
  "sub_tag (OpenTag name) content = sub_open name content"
| "sub_tag (CloseTag name) content = sub_close name content"

text \<open>\<open>re.sub(r'\s+', ' ', s)\<close>: every maximal run of whitespace becomes one space.\<close>

fun collapse_spaces :: "bool \<Rightarrow> pystr \<Rightarrow> pystr" where
  "collapse_spaces in_run [] = []"
| "collapse_spaces in_run (c # cs) =
     (if isspace c then (if in_run then collapse_spaces True cs else 32 # collapse_spaces True cs)
      else c # collapse_spaces False cs)"

text \<open>\<open>replace_cdata\<close> on the content \<open>match.group(1)\<close> of a CDATA section.\<close>

definition replace_cdata :: "pystr \<Rightarrow> pystr" where
  "replace_cdata content =
     escape_xml_text (strip (collapse_spaces False (fold sub_tag html_tags content)))"

text \<open>
  The first occurrence of \<open>pat\<close> in \<open>s\<close>: the text before it and the text behind it.
\<close>

fun split_at_first :: "pystr \<Rightarrow> pystr \<Rightarrow> (pystr \<times> pystr) option" where
  "split_at_first pat [] = (if pat = [] then Some ([], []) else None)"
| "split_at_first pat (c # cs) =
     (if startswith (c # cs) pat then Some ([], drop (length pat) (c # cs))
      else (case split_at_first pat cs of
              None \<Rightarrow> None
            | Some (before, behind) \<Rightarrow> Some (c # before, behind)))"

definition CDATA_OPEN :: pystr where
  "CDATA_OPEN = ascii ''<![CDATA[''"

definition CDATA_CLOSE :: pystr where
  "CDATA_CLOSE = ascii '']]>''"

text \<open>
  \<open>clean_xml_file\<close>: \<open>re.sub(r'<!\[CDATA\[(.*?)\]\]>', replace_cdata, s, flags=re.DOTALL)\<close>.
  At the leftmost position with the opener and a later closer, the section up to the
  first closer is replaced and the scan goes on behind it; every other code point is
  kept. The empty input is returned as it is.
\<close>

function clean_xml_file :: "pystr \<Rightarrow> pystr" where
  "clean_xml_file [] = []"
| "clean_xml_file (c # cs) =
     (if startswith (c # cs) CDATA_OPEN then
        (case split_at_first CDATA_CLOSE (drop (length CDATA_OPEN) (c # cs)) of
           None \<Rightarrow> c # clean_xml_file cs
         | Some (content, behind) \<Rightarrow> replace_cdata content @ clean_xml_file behind)
      else c # clean_xml_file cs)"
  by pat_completeness auto
termination
proof (relation "measure length")
  show "wf (measure length)"
    by simp
next
  fix c :: nat and cs :: pystr
  show "(cs, c # cs) \<in> measure length"
    by simp
next
  fix c :: nat and cs content behind :: pystr and x2 :: "pystr \<times> pystr"
  assume "split_at_first CDATA_CLOSE (drop (length CDATA_OPEN) (c # cs)) = Some x2"
     and "(content, behind) = x2"
  then have s: "split_at_first CDATA_CLOSE (drop (length CDATA_OPEN) (c # cs)) = Some (content, behind)"
    by simp
  have "\<And>a b. split_at_first CDATA_CLOSE t = Some (a, b) \<Longrightarrow> length b \<le> length t" for t
  proof (induction t)
    case Nil
    then show ?case by (simp split: if_splits)
  next
    case (Cons x t)
    then show ?case
      by (auto split: if_splits option.splits)
  qed
  from this [OF s] have "length behind \<le> length (drop (length CDATA_OPEN) (c # cs))" .
  then show "(behind, c # cs) \<in> measure length"
    by (simp add: CDATA_OPEN_def ascii_def)
next
  fix c :: nat and cs :: pystr
  show "(cs, c # cs) \<in> measure length"
    by simp
qed

section \<open>Configuration and question values\<close>

text \<open>
  The values of a configuration, a question dictionary and the metadata: what
  \<open>json.loads\<close> and \<open>to_dict\<close> produce. A dictionary keeps its insertion order; a
  lookup takes the first entry of a key.
\<close>

datatype json =
    JNone
  | JBool bool
  | JInt int
  | JFloat pyfloat
  | JStr pystr
  | JList "json list"
  | JDict "(pystr \<times> json) list"

type_synonym pydict = "(pystr \<times> json) list"

text \<open>\<open>d.get(k)\<close> and \<open>d.get(k, default)\<close>.\<close>

definition dget :: "pydict \<Rightarrow> pystr \<Rightarrow> json" where
  "dget d k = (case map_of d k of None \<Rightarrow> JNone | Some v \<Rightarrow> v)"

definition dget_default :: "pydict \<Rightarrow> pystr \<Rightarrow> json \<Rightarrow> json" where
  "dget_default d k dflt = (case map_of d k of None \<Rightarrow> dflt | Some v \<Rightarrow> v)"

text \<open>The truth value of a value, as \<open>bool(v)\<close>, \<open>not v\<close> and \<open>v or w\<close> take it.\<close>

fun truthy :: "json \<Rightarrow> bool" where
  "truthy JNone = False"
| "truthy (JBool b) = b"
| "truthy (JInt i) = (i \<noteq> 0)"
| "truthy (JFloat f) = (f \<noteq> Fin 0)"
| "truthy (JStr s) = (s \<noteq> [])"
| "truthy (JList xs) = (xs \<noteq> [])"
| "truthy (JDict d) = (d \<noteq> [])"

definition py_or :: "json \<Rightarrow> json \<Rightarrow> json" where
  "py_or v w = (if truthy v then v else w)"

text \<open>\<open>isinstance\<close>: a \<open>bool\<close> is an \<open>int\<close>.\<close>

fun is_int :: "json \<Rightarrow> bool" where
  "is_int (JInt i) = True"
| "is_int (JBool b) = True"
| "is_int v = False"

fun is_int_or_float :: "json \<Rightarrow> bool" where
  "is_int_or_float (JFloat f) = True"
| "is_int_or_float v = is_int v"

fun is_str :: "json \<Rightarrow> bool" where
  "is_str (JStr s) = True"
| "is_str v = False"

fun is_list :: "json \<Rightarrow> bool" where
  "is_list (JList xs) = True"
| "is_list v = False"

fun is_dict :: "json \<Rightarrow> bool" where
  "is_dict (JDict d) = True"
| "is_dict v = False"

text \<open>The value of an \<open>int\<close> or \<open>bool\<close> in a comparison (0 for anything else).\<close>

fun int_value :: "json \<Rightarrow> int" where
  "int_value (JInt i) = i"
| "int_value (JBool b) = (if b then 1 else 0)"
| "int_value v = 0"

text \<open>\<open>v == n\<close> for an \<open>int\<close> literal \<open>n\<close>.\<close>

fun eq_int :: "json \<Rightarrow> int \<Rightarrow> bool" where
  "eq_int (JInt i) n = (i = n)"
| "eq_int (JBool b) n = ((if b then 1 else 0) = n)"
| "eq_int (JFloat f) n = (f = Fin (of_int n))"
| "eq_int v n = False"

text \<open>
  \<open>int(v)\<close> where the code calls it, behind an \<open>isinstance\<close> check for \<open>int\<close> or
  \<open>float\<close>: a finite float is truncated towards zero, an infinite one raises
  \<open>OverflowError\<close>, a NaN \<open>ValueError\<close>.
\<close>

fun py_int :: "json \<Rightarrow> pyerr + int" where
  "py_int (JInt i) = Inr i"
| "py_int (JBool b) = Inr (if b then 1 else 0)"
| "py_int (JFloat (Fin q)) = Inr (if 0 \<le> q then \<lfloor>q\<rfloor> else \<lceil>q\<rceil>)"
| "py_int (JFloat PInf) = Inl OverflowError"
| "py_int (JFloat NInf) = Inl OverflowError"
| "py_int (JFloat NaN) = Inl ValueError"
| "py_int v = Inl TypeError"

text \<open>A list or a dictionary cannot be hashed: a set or a membership test in a set raises.\<close>

fun unhashable :: "json \<Rightarrow> bool" where
  "unhashable (JList xs) = True"
| "unhashable (JDict d) = True"
| "unhashable v = False"

text \<open>\<open>v in {s1, ..., sn}\<close> and \<open>v not in {...}\<close> for a set of string literals.\<close>

definition in_str_set :: "json \<Rightarrow> pystr list \<Rightarrow> pyerr + bool" where
  "in_str_set v names = (if unhashable v then Inl TypeError else Inr (v \<in> JStr ` set names))"

text \<open>\<open>len(v)\<close>.\<close>

fun py_len :: "json \<Rightarrow> pyerr + nat" where
  "py_len (JStr s) = Inr (length s)"
| "py_len (JList xs) = Inr (length xs)"
| "py_len (JDict d) = Inr (length d)"
| "py_len v = Inl TypeError"

text \<open>
  The elements that \<open>for x in v\<close> visits: the items of a list, the characters of a
  string, the keys of a dictionary.
\<close>

fun py_iter :: "json \<Rightarrow> pyerr + json list" where
  "py_iter (JList xs) = Inr xs"
| "py_iter (JStr s) = Inr (map (\<lambda>c. JStr [c]) s)"
| "py_iter (JDict d) = Inr (map (\<lambda>(k, v). JStr k) d)"
| "py_iter v = Inl TypeError"

text \<open>The decimal digits of a natural number and \<open>str\<close> of an \<open>int\<close>.\<close>

fun digits_of :: "nat \<Rightarrow> pystr" where
  "digits_of n = (if n < 10 then [48 + n] else digits_of (n div 10) @ [48 + n mod 10])"

definition str_int :: "int \<Rightarrow> pystr" where
  "str_int i = (if i < 0 then 45 # digits_of (nat (- i)) else digits_of (nat i))"

text \<open>
  \<open>str(v)\<close>. The text of a float, a list or a dictionary is Python's \<open>repr\<close>, which is
  not modelled: it is the parameter \<open>repr\<close> of every definition that formats a value.
\<close>

fun py_str :: "(json \<Rightarrow> pystr) \<Rightarrow> json \<Rightarrow> pystr" where
  "py_str repr (JStr s) = s"
| "py_str repr JNone = ascii ''None''"
| "py_str repr (JBool b) = (if b then ascii ''True'' else ascii ''False'')"
| "py_str repr (JInt i) = str_int i"
| "py_str repr v = repr v"

text \<open>\<open>sep.join(parts)\<close>.\<close>

fun join :: "pystr \<Rightarrow> pystr list \<Rightarrow> pystr" where
  "join sep [] = []"
| "join sep [p] = p"
| "join sep (p # q # ps) = p @ sep @ join sep (q # ps)"

section \<open>Template schema: validator, presets, migration\<close>

definition jstr :: "string \<Rightarrow> json" where
  "jstr s = JStr (ascii s)"

text \<open>The message \<open>f"blocks[{i}]..."\<close> with the given tail.\<close>

definition block_msg :: "nat \<Rightarrow> pystr \<Rightarrow> pystr" where
  "block_msg i tail = ascii ''blocks['' @ str_int (int i) @ ascii '']'' @ tail"

text \<open>\<open>not isinstance(p, str) or not p.strip()\<close>.\<close>

fun blank_pattern :: "json \<Rightarrow> bool" where
  "blank_pattern (JStr s) = (strip s = [])"
| "blank_pattern v = True"

definition SOURCES :: "pystr list" where
  "SOURCES = [ascii ''answers_all'', ascii ''answers_correct'', ascii ''matching_pairs'']"

definition KINDS :: "pystr list" where
  "KINDS = [ascii ''line'', ascii ''list'', ascii ''table'', ascii ''spacer'']"

text \<open>
  The check of \<open>headers\<close> in a table block:
  \<open>not isinstance(headers, list) or (cols and len(headers) != len(cols))\<close>; \<open>len(cols)\<close>
  raises for a true value without a length.
\<close>

definition headers_errors :: "nat \<Rightarrow> json \<Rightarrow> json \<Rightarrow> pyerr + pystr list" where
  "headers_errors i headers cols =
     (if headers = JNone then Inr []
      else if \<not> is_list headers then Inr [block_msg i (ascii ''.headers must match cols length'')]
      else if \<not> truthy cols then Inr []
      else (case py_len headers of
              Inl e \<Rightarrow> Inl e
            | Inr m \<Rightarrow>
                (case py_len cols of
                   Inl e \<Rightarrow> Inl e
                 | Inr n \<Rightarrow>
                     Inr (if m \<noteq> n then [block_msg i (ascii ''.headers must match cols length'')]
                          else []))))"

text \<open>
  The body of the loop \<open>for i, b in enumerate(blocks)\<close> of the validator: the errors that
  the block adds, or the exception of a membership test on an unhashable value.
\<close>

definition validate_block :: "(json \<Rightarrow> pystr) \<Rightarrow> nat \<Rightarrow> json \<Rightarrow> pyerr + pystr list" where
  "validate_block repr i blk =
     (case blk of
        JDict b \<Rightarrow>
          (let kind = dget b (ascii ''kind'') in
           case in_str_set kind KINDS of
             Inl e \<Rightarrow> Inl e
           | Inr known \<Rightarrow>
               if \<not> known then
                 Inr [block_msg i (ascii ''.kind invalid: '' @ py_str repr kind)]
               else if kind = jstr ''line'' then
                 Inr (if blank_pattern (dget b (ascii ''pattern''))
                      then [block_msg i (ascii ''.pattern is required'')] else [])
               else if kind = jstr ''spacer'' then
                 (let mm = dget_default b (ascii ''mm'') (JInt 4) in
                  Inr (if \<not> is_int mm \<or> int_value mm < 0 \<or> int_value mm > 50
                       then [block_msg i (ascii ''.mm must be int 0..50'')] else []))
               else if kind = jstr ''list'' then
                 (case in_str_set (dget b (ascii ''source'')) SOURCES of
                    Inl e \<Rightarrow> Inl e
                  | Inr ok \<Rightarrow>
                      Inr ((if \<not> ok then [block_msg i (ascii ''.source invalid'')] else [])
                           @ (if blank_pattern (dget b (ascii ''pattern''))
                              then [block_msg i (ascii ''.pattern is required'')] else [])))
               else
                 (case in_str_set (dget b (ascii ''source'')) SOURCES of
                    Inl e \<Rightarrow> Inl e
                  | Inr ok \<Rightarrow>
                      (let cols = dget b (ascii ''cols'');
                           headers = dget b (ascii ''headers'');
                           widths = dget b (ascii ''col_widths_pct'')
                       in case headers_errors i headers cols of
                            Inl e \<Rightarrow> Inl e
                          | Inr header_errs \<Rightarrow>
                              Inr ((if \<not> ok then [block_msg i (ascii ''.source invalid'')] else [])
                                   @ (case cols of
                                        JList cs \<Rightarrow>
                                          if cs = [] then
                                            [block_msg i (ascii ''.cols must be a non-empty list'')]
                                          else if \<not> list_all (\<lambda>c. \<not> blank_pattern c) cs then
                                            [block_msg i (ascii ''.cols must contain non-empty strings'')]
                                          else []
                                      | _ \<Rightarrow> [block_msg i (ascii ''.cols must be a non-empty list'')])
                                   @ header_errs
                                   @ (if widths = JNone then []
                                      else (case widths of
                                              JList ws \<Rightarrow>
                                                if \<not> list_all is_int ws then
                                                  [block_msg i (ascii ''.col_widths_pct must be list[int]'')]
                                                else []
                                            | _ \<Rightarrow>
                                                [block_msg i (ascii ''.col_widths_pct must be list[int]'')]))))))
      | _ \<Rightarrow> Inr [block_msg i (ascii '' must be an object'')])"

fun validate_blocks :: "(json \<Rightarrow> pystr) \<Rightarrow> nat \<Rightarrow> json list \<Rightarrow> pyerr + pystr list" where
  "validate_blocks repr i [] = Inr []"
| "validate_blocks repr i (b # bs) =
     (case validate_block repr i b of
        Inl e \<Rightarrow> Inl e
      | Inr errs \<Rightarrow>
          (case validate_blocks repr (Suc i) bs of
             Inl e \<Rightarrow> Inl e
           | Inr rest_errs \<Rightarrow> Inr (errs @ rest_errs)))"

text \<open>\<open>validate_template_config_v2\<close>.\<close>

definition validate_template_config_v2 :: "(json \<Rightarrow> pystr) \<Rightarrow> json \<Rightarrow> pyerr + pystr list" where
  "validate_template_config_v2 repr cfg =
     (case cfg of
        JDict c \<Rightarrow>
          (let errors = (if \<not> eq_int (dget c (ascii ''version'')) 2
                         then [ascii ''config.version must be 2''] else []);
               styles = dget_default c (ascii ''styles'') (JDict []);
               errors = errors @ (if styles \<noteq> JNone \<and> \<not> is_dict styles
                                  then [ascii ''config.styles must be an object''] else []);
               blocks = dget c (ascii ''blocks'')
           in case blocks of
                JList bs \<Rightarrow>
                  if bs = [] then Inr (errors @ [ascii ''config.blocks must be a non-empty list''])
                  else (case validate_blocks repr 0 bs of
                          Inl e \<Rightarrow> Inl e
                        | Inr block_errs \<Rightarrow> Inr (errors @ block_errs))
              | _ \<Rightarrow> Inr (errors @ [ascii ''config.blocks must be a non-empty list'']))
      | _ \<Rightarrow> Inr [ascii ''config is not an object''])"

text \<open>
  The presets. The Cyrillic headers and the label of the essay line are code points;
  \<open>NUMERO\<close> is the sign U+2116.
\<close>

definition NUMERO :: pystr where
  "NUMERO = [8470]"

definition HDR_ELEMENT :: pystr where
  "HDR_ELEMENT = [1069, 1083, 1077, 1084, 1077, 1085, 1090]"

definition HDR_CORRECT_ANSWER :: pystr where
  "HDR_CORRECT_ANSWER =
     [1055, 1088, 1072, 1074, 1080, 1083, 1100, 1085, 1099, 1081, 32, 1086, 1090, 1074, 1077, 1090]"

definition HDR_OPTIONS :: pystr where
  "HDR_OPTIONS = [1042, 1072, 1088, 1080, 1072, 1085, 1090, 1099, 32, 1086, 1090, 1074, 1077, 1090, 1072]"

definition HDR_ANSWER :: pystr where
  "HDR_ANSWER = [1054, 1090, 1074, 1077, 1090]"

definition REFERENCE_LABEL :: pystr where
  "REFERENCE_LABEL = [1069, 1090, 1072, 1083, 1086, 1085, 58, 32]"

definition default_styles :: json where
  "default_styles =
     JDict [(ascii ''header_color'', jstr ''#C00000''), (ascii ''title_size'', JInt 22),
            (ascii ''header_size'', JInt 16), (ascii ''body_size'', JInt 14),
            (ascii ''answer_size'', JInt 12)]"

definition head_blocks :: "json list" where
  "head_blocks =
     [JDict [(ascii ''kind'', jstr ''line''), (ascii ''pattern'', jstr ''{{task.header}}'')],
      JDict [(ascii ''kind'', jstr ''line''), (ascii ''pattern'', jstr ''{{question.question_text}}'')],
      JDict [(ascii ''kind'', jstr ''spacer''), (ascii ''mm'', JInt 2)]]"

definition preset_table_default :: "pystr \<Rightarrow> json" where
  "preset_table_default question_type =
     (if question_type = ascii ''matching'' then
        JDict [(ascii ''version'', JInt 2), (ascii ''styles'', default_styles),
               (ascii ''blocks'', JList (head_blocks @
                  [JDict [(ascii ''kind'', jstr ''table''),
                          (ascii ''source'', jstr ''matching_pairs''),
                          (ascii ''headers'', JList [JStr NUMERO, jstr '''', JStr HDR_ELEMENT,
                                                     JStr HDR_CORRECT_ANSWER]),
                          (ascii ''cols'', JList [jstr '''', jstr '''', jstr ''{{item.item}}'',
                                                  jstr ''{{item.answer}}'']),
                          (ascii ''col_widths_pct'', JList [JInt 10, JInt 25, JInt 35, JInt 30])]]))]
      else if question_type \<in> {ascii ''multichoice'', ascii ''truefalse''} then
        JDict [(ascii ''version'', JInt 2), (ascii ''styles'', default_styles),
               (ascii ''blocks'', JList (head_blocks @
                  [JDict [(ascii ''kind'', jstr ''table''),
                          (ascii ''source'', jstr ''answers_all''),
                          (ascii ''headers'', JList [JStr NUMERO, JStr HDR_OPTIONS,
                                                     JStr HDR_CORRECT_ANSWER]),
                          (ascii ''cols'', JList [jstr '''', jstr ''{{item}}'',
                                                  jstr ''{{item|if_correct}}'']),
                          (ascii ''col_widths_pct'', JList [JInt 10, JInt 45, JInt 45])]]))]
      else if question_type = ascii ''shortanswer'' then
        JDict [(ascii ''version'', JInt 2), (ascii ''styles'', default_styles),
               (ascii ''blocks'', JList (head_blocks @
                  [JDict [(ascii ''kind'', jstr ''table''),
                          (ascii ''source'', jstr ''answers_correct''),
                          (ascii ''headers'', JList [JStr NUMERO, jstr '''', JStr HDR_ANSWER]),
                          (ascii ''cols'', JList [jstr '''', jstr '''', jstr ''{{item}}'']),
                          (ascii ''col_widths_pct'', JList [JInt 10, JInt 10, JInt 80])]]))]
      else
        JDict [(ascii ''version'', JInt 2), (ascii ''styles'', default_styles),
               (ascii ''blocks'', JList (head_blocks @
                  [JDict [(ascii ''kind'', jstr ''line''),
                          (ascii ''pattern'',
                           JStr (REFERENCE_LABEL @ ascii ''{{question.reference_answer}}''))]]))])"

text \<open>The loop of the migration over the four size keys; \<open>int\<close> may raise.\<close>

fun overlay_sizes :: "pydict \<Rightarrow> (pystr \<times> pystr) list \<Rightarrow> pydict \<Rightarrow> pyerr + pydict" where
  "overlay_sizes v1_styles [] styles = Inr styles"
| "overlay_sizes v1_styles ((key_old, key_new) # ks) styles =
     (if is_int_or_float (dget v1_styles key_old) then
        (case py_int (dget v1_styles key_old) of
           Inl e \<Rightarrow> Inl e
         | Inr n \<Rightarrow> overlay_sizes v1_styles ks (dict_set styles key_new (JInt n)))
      else overlay_sizes v1_styles ks styles)"

text \<open>\<open>[int(x) for x in tc]\<close>.\<close>

fun ints_of :: "json list \<Rightarrow> pyerr + int list" where
  "ints_of [] = Inr []"
| "ints_of (x # xs) =
     (case py_int x of
        Inl e \<Rightarrow> Inl e
      | Inr n \<Rightarrow> (case ints_of xs of Inl e \<Rightarrow> Inl e | Inr ns \<Rightarrow> Inr (n # ns)))"

text \<open>The loop that writes \<open>col_widths_pct\<close> into the first table block and stops.\<close>

fun set_first_table :: "json list \<Rightarrow> json \<Rightarrow> json list" where
  "set_first_table [] table_cols = []"
| "set_first_table (blk # bs) table_cols =
     (case blk of
        JDict b \<Rightarrow>
          if dget b (ascii ''kind'') = jstr ''table''
          then JDict (dict_set b (ascii ''col_widths_pct'') table_cols) # bs
          else blk # set_first_table bs table_cols
      | _ \<Rightarrow> blk # set_first_table bs table_cols)"

text \<open>The dictionary \<open>x if isinstance(x, dict) else {}\<close>.\<close>

fun dict_or_empty :: "json \<Rightarrow> pydict" where
  "dict_or_empty (JDict d) = d"
| "dict_or_empty v = []"

text \<open>The list \<open>x\<close> of a list value (empty for anything else).\<close>

fun list_items :: "json \<Rightarrow> json list" where
  "list_items (JList xs) = xs"
| "list_items v = []"

text \<open>
  \<open>migrate_v1_to_v2\<close>. The preset is a fresh dictionary with a \<open>styles\<close> dictionary and
  a \<open>blocks\<close> list, which the function updates in place.
\<close>

definition migrate_v1_to_v2 :: "pydict \<Rightarrow> pystr \<Rightarrow> pyerr + json" where
  "migrate_v1_to_v2 v1 question_type =
     (let v2 = dict_or_empty (preset_table_default question_type);
          styles = dict_or_empty (dget_default v2 (ascii ''styles'') (JDict []));
          v1_styles = dict_or_empty (dget v1 (ascii ''styles''));
          styles = (if is_str (dget v1_styles (ascii ''header_color''))
                    then dict_set styles (ascii ''header_color'') (dget v1_styles (ascii ''header_color''))
                    else styles)
      in case overlay_sizes v1_styles
                [(ascii ''title_size'', ascii ''title_size''),
                 (ascii ''header_size'', ascii ''header_size''),
                 (ascii ''body_size'', ascii ''body_size''),
                 (ascii ''answer_size'', ascii ''answer_size'')] styles of
           Inl e \<Rightarrow> Inl e
         | Inr styles \<Rightarrow>
             (let v2 = dict_set v2 (ascii ''styles'') (JDict styles);
                  layout = dict_or_empty (dget v1 (ascii ''layout''));
                  tc = dget (dict_or_empty (dget layout question_type)) (ascii ''table_cols_pct'')
              in if is_dict (dget layout question_type) \<and> is_list tc
                    \<and> list_all is_int_or_float (list_items tc) then
                   (case ints_of (list_items tc) of
                      Inl e \<Rightarrow> Inl e
                    | Inr table_cols \<Rightarrow>
                        if table_cols \<noteq> [] then
                          Inr (JDict (dict_set v2 (ascii ''blocks'')
                                 (JList (set_first_table
                                           (list_items (dget_default v2 (ascii ''blocks'') (JList [])))
                                           (JList (map JInt table_cols))))))
                        else Inr (JDict v2))
                 else Inr (JDict v2)))"

section \<open>Expression evaluator and block renderer\<close>

text \<open>\<open>html.escape(s, quote=True)\<close>, and \<open>_esc\<close> on a value.\<close>

definition html_escape :: "pystr \<Rightarrow> pystr" where
  "html_escape s =
     replace_char 39 (ascii ''&#x27;'')
       (replace_char 34 (ascii ''&quot;'')
         (replace_char 62 (ascii ''&gt;'')
           (replace_char 60 (ascii ''&lt;'')
             (replace_char 38 (ascii ''&amp;'') s))))"

definition esc :: "(json \<Rightarrow> pystr) \<Rightarrow> json \<Rightarrow> pystr" where
  "esc repr v = html_escape (if v = JNone then [] else py_str repr v)"

text \<open>The dictionary \<open>ctx\<close> of \<open>render_question_html\<close>, with its three keys.\<close>

record ctx =
  ctx_question :: pydict
  ctx_metadata :: pydict
  ctx_task_header :: pystr

text \<open>The text \<open>f"{p.get('item','')}\<rightarrow>{p.get('answer','')}"\<close> of a matching pair.\<close>

definition pair_text :: "(json \<Rightarrow> pystr) \<Rightarrow> json \<Rightarrow> pystr" where
  "pair_text repr p =
     py_str repr (dget_default (dict_or_empty p) (ascii ''item'') (JStr []))
     @ [8594]
     @ py_str repr (dget_default (dict_or_empty p) (ascii ''answer'') (JStr []))"

text \<open>\<open>_get_question_view\<close>: the question with the two joined texts.\<close>

definition get_question_view :: "(json \<Rightarrow> pystr) \<Rightarrow> pydict \<Rightarrow> pyerr + pydict" where
  "get_question_view repr question =
     (let correct = py_or (dget question (ascii ''correct_answers'')) (JList []);
          matching_pairs = py_or (dget question (ascii ''matching_items'')) (JList [])
      in case py_iter correct of
           Inl e \<Rightarrow> Inl e
         | Inr cs \<Rightarrow>
             (case py_iter matching_pairs of
                Inl e \<Rightarrow> Inl e
              | Inr ps \<Rightarrow>
                  Inr (dict_set
                         (dict_set question (ascii ''correct_join'')
                            (JStr (join (ascii ''; '') (map (py_str repr) cs))))
                         (ascii ''matching_join'')
                         (JStr (join (ascii ''; '') (map (pair_text repr) (filter is_dict ps)))))))"

text \<open>
  \<open>set(ctx["question"].get("correct_answers") or [])\<close>: the elements of the set, or the
  \<open>TypeError\<close> of a value that cannot be iterated or of an element that cannot be hashed.
\<close>

definition correct_set :: "ctx \<Rightarrow> pyerr + json list" where
  "correct_set c =
     (case py_iter (py_or (dget (ctx_question c) (ascii ''correct_answers'')) (JList [])) of
        Inl e \<Rightarrow> Inl e
      | Inr xs \<Rightarrow> if list_ex unhashable xs then Inl TypeError else Inr xs)"

text \<open>
  \<open>_eval_pipe\<close>. The argument \<open>item\<close> is \<open>JNone\<close> outside a loop. The recursive call is on
  the text before the first bar, which has no bar.
\<close>

function eval_pipe :: "(json \<Rightarrow> pystr) \<Rightarrow> pystr \<Rightarrow> ctx \<Rightarrow> json \<Rightarrow> pyerr + pystr" where
  "eval_pipe repr expr0 c item =
     (let expr = strip expr0 in
      if 124 \<in> set expr then
        (let base = strip (takeWhile (\<lambda>x. x \<noteq> 124) expr);
             op = strip (drop 1 (dropWhile (\<lambda>x. x \<noteq> 124) expr))
         in if op = ascii ''is_correct'' then
              (case eval_pipe repr base c item of
                 Inl e \<Rightarrow> Inl e
               | Inr val \<Rightarrow>
                   (case correct_set c of
                      Inl e \<Rightarrow> Inl e
                    | Inr correct \<Rightarrow> Inr (if JStr val \<in> set correct then ascii ''+'' else [])))
            else if op = ascii ''if_correct'' then
              (case eval_pipe repr base c item of
                 Inl e \<Rightarrow> Inl e
               | Inr val \<Rightarrow>
                   (case correct_set c of
                      Inl e \<Rightarrow> Inl e
                    | Inr correct \<Rightarrow> Inr (if JStr val \<in> set correct then val else [])))
            else eval_pipe repr base c item)
      else if startswith expr (ascii ''question.'') then
        (let key = drop (length (ascii ''question.'')) expr in
         Inr (if key \<notin> fst ` set (ctx_question c) then []
              else py_str repr (py_or (dget (ctx_question c) key) (JStr []))))
      else if startswith expr (ascii ''metadata.'') then
        (let key = drop (length (ascii ''metadata.'')) expr in
         Inr (if key \<notin> fst ` set (ctx_metadata c) then []
              else py_str repr (py_or (dget (ctx_metadata c) key) (JStr []))))
      else if expr = ascii ''task.header'' then Inr (ctx_task_header c)
      else if expr = ascii ''item'' then Inr (if item = JNone then [] else py_str repr item)
      else if startswith expr (ascii ''item.'') \<and> is_dict item then
        Inr (py_str repr
               (py_or (dget_default (dict_or_empty item) (drop (length (ascii ''item.'')) expr) (JStr []))
                      (JStr [])))
      else Inr [])"
  by pat_completeness auto
termination
proof (relation "measure (\<lambda>(repr, e, c, item). length (filter (\<lambda>x. x = 124) e))")
  show "wf (measure (\<lambda>(repr, e, c, item). length (filter (\<lambda>x. x = 124) e)))"
    by simp
next
  have sub: "set (strip s) \<subseteq> set s" for s
  proof -
    have "set (rstrip t) \<subseteq> set t" for t
      using set_dropWhileD [of _ isspace "rev t"] by (auto simp: rstrip_def)
    moreover have "set (lstrip s) \<subseteq> set s"
      using set_dropWhileD [of _ isspace s] by (auto simp: lstrip_def)
    ultimately show ?thesis
      unfolding strip_def by blast
  qed
  have base: "filter (\<lambda>x. x = 124) (strip (takeWhile (\<lambda>x. x \<noteq> 124) e)) = []" for e
  proof -
    have "124 \<notin> set (takeWhile (\<lambda>x. x \<noteq> 124) e)"
      using set_takeWhileD by fastforce
    then have "124 \<notin> set (strip (takeWhile (\<lambda>x. x \<noteq> 124) e))"
      using sub by blast
    then show ?thesis
      by (auto simp: filter_empty_conv)
  qed
  have pos: "124 \<in> set (strip e) \<Longrightarrow> 0 < length (filter (\<lambda>x. x = 124) e)" for e
  proof -
    assume "124 \<in> set (strip e)"
    then have "124 \<in> set e"
      using sub by blast
    then have "filter (\<lambda>x. x = 124) e \<noteq> []"
      by (simp add: filter_empty_conv)
    then show ?thesis
      by simp
  qed
  fix repr :: "json \<Rightarrow> pystr" and expr0 :: pystr and c :: ctx and item :: json
    and x xa xb :: pystr
  assume x: "x = strip expr0" and m: "124 \<in> set x"
    and xa: "xa = strip (takeWhile (\<lambda>x. x \<noteq> 124) x)"
  show "((repr, xa, c, item), repr, expr0, c, item)
          \<in> measure (\<lambda>(repr, e, c, item). length (filter (\<lambda>x. x = 124) e))"
    using base [of x] pos [of expr0] x m xa by simp
  show "((repr, xa, c, item), repr, expr0, c, item)
          \<in> measure (\<lambda>(repr, e, c, item). length (filter (\<lambda>x. x = 124) e))"
    using base [of x] pos [of expr0] x m xa by simp
  show "((repr, xa, c, item), repr, expr0, c, item)
          \<in> measure (\<lambda>(repr, e, c, item). length (filter (\<lambda>x. x = 124) e))"
    using base [of x] pos [of expr0] x m xa by simp
qed

declare eval_pipe.simps [simp del]

text \<open>
  The group of \<open>_EXPR_RE\<close> for the text between \<open>{{\<close> and the first \<open>}\<close>: the text
  without the whitespace around it; when it is whitespace only, its last code point.
\<close>

definition expr_group :: "pystr \<Rightarrow> pystr" where
  "expr_group content = (if list_all isspace content then [last content] else strip content)"

text \<open>
  \<open>_render_pattern\<close>: \<open>_EXPR_RE.sub(repl, pattern)\<close>. The pattern matches at a position
  with \<open>{{\<close>, a non-empty text without \<open>}\<close> and then \<open>}}\<close>; the match is replaced by
  the escaped value of its group, and the scan goes on behind it.
\<close>

function render_pattern :: "(json \<Rightarrow> pystr) \<Rightarrow> pystr \<Rightarrow> ctx \<Rightarrow> json \<Rightarrow> pyerr + pystr" where
  "render_pattern repr [] c item = Inr []"
| "render_pattern repr (x # xs) c item =
     (if startswith (x # xs) (ascii ''{{'')
         \<and> takeWhile (\<lambda>y. y \<noteq> 125) (drop 1 xs) \<noteq> []
         \<and> startswith (dropWhile (\<lambda>y. y \<noteq> 125) (drop 1 xs)) (ascii ''}}'')
      then
        (case eval_pipe repr (expr_group (takeWhile (\<lambda>y. y \<noteq> 125) (drop 1 xs))) c item of
           Inl e \<Rightarrow> Inl e
         | Inr v \<Rightarrow>
             (case render_pattern repr (drop 2 (dropWhile (\<lambda>y. y \<noteq> 125) (drop 1 xs))) c item of
                Inl e \<Rightarrow> Inl e
              | Inr r \<Rightarrow> Inr (html_escape v @ r)))
      else
        (case render_pattern repr xs c item of
           Inl e \<Rightarrow> Inl e
         | Inr r \<Rightarrow> Inr (x # r)))"
  by pat_completeness auto
termination
proof (relation "measure (\<lambda>(repr, p, c, item). length p)")
  show "wf (measure (\<lambda>(repr, p, c, item). length p))"
    by simp
next
  fix repr :: "json \<Rightarrow> pystr" and x :: nat and xs :: pystr and c :: ctx and item :: json
  have "length (dropWhile (\<lambda>y. y \<noteq> 125) (drop 1 xs)) \<le> length xs"
    using length_dropWhile_le [of "\<lambda>y. y \<noteq> 125" "drop 1 xs"] by simp
  then show "((repr, drop 2 (dropWhile (\<lambda>y. y \<noteq> 125) (drop 1 xs)), c, item), repr, x # xs, c, item)
               \<in> measure (\<lambda>(repr, p, c, item). length p)"
    by simp
next
  fix repr :: "json \<Rightarrow> pystr" and x :: nat and xs :: pystr and c :: ctx and item :: json
  show "((repr, xs, c, item), repr, x # xs, c, item) \<in> measure (\<lambda>(repr, p, c, item). length p)"
    by simp
qed

text \<open>\<open>_render_pattern\<close> on a value: \<open>re.sub\<close> raises for a pattern that is not a string.\<close>

definition render_pattern_value :: "(json \<Rightarrow> pystr) \<Rightarrow> json \<Rightarrow> ctx \<Rightarrow> json \<Rightarrow> pyerr + pystr" where
  "render_pattern_value repr pattern c item =
     (case pattern of JStr p \<Rightarrow> render_pattern repr p c item | _ \<Rightarrow> Inl TypeError)"

text \<open>The items of a list or table block for its \<open>source\<close>.\<close>

definition source_items :: "pydict \<Rightarrow> json \<Rightarrow> json" where
  "source_items question source =
     (if source = jstr ''answers_all'' then py_or (dget question (ascii ''answers'')) (JList [])
      else if source = jstr ''answers_correct'' then
        py_or (dget question (ascii ''correct_answers'')) (JList [])
      else if source = jstr ''matching_pairs'' then
        py_or (dget question (ascii ''matching_items'')) (JList [])
      else JList [])"

text \<open>The joined \<open><li>\<close> elements of a list block.\<close>

fun render_lis :: "(json \<Rightarrow> pystr) \<Rightarrow> json \<Rightarrow> ctx \<Rightarrow> json list \<Rightarrow> pyerr + pystr" where
  "render_lis repr pattern c [] = Inr []"
| "render_lis repr pattern c (x # xs) =
     (case render_pattern_value repr pattern c x of
        Inl e \<Rightarrow> Inl e
      | Inr t \<Rightarrow>
          (case render_lis repr pattern c xs of
             Inl e \<Rightarrow> Inl e
           | Inr r \<Rightarrow> Inr (ascii ''<li>'' @ t @ ascii ''</li>'' @ r)))"

text \<open>
  The list \<open>width_style\<close> of a table block: one \<open>width:N%\<close> per column when the width
  list is non-empty and as long as \<open>cols\<close>, the empty string per column otherwise.
\<close>

fun width_texts :: "json list \<Rightarrow> pyerr + pystr list" where
  "width_texts [] = Inr []"
| "width_texts (w # ws) =
     (case py_int w of
        Inl e \<Rightarrow> Inl e
      | Inr n \<Rightarrow>
          (case width_texts ws of
             Inl e \<Rightarrow> Inl e
           | Inr r \<Rightarrow> Inr ((ascii ''width:'' @ str_int n @ ascii ''%'') # r)))"

definition width_style :: "json list \<Rightarrow> nat \<Rightarrow> pyerr + pystr list" where
  "width_style widths col_count =
     (if widths \<noteq> [] \<and> length widths = col_count then width_texts widths
      else Inr (replicate col_count []))"

text \<open>The joined cells of one row, for the pairs of \<open>width_style[i]\<close> and \<open>cols[i]\<close>.\<close>

fun render_tds :: "(json \<Rightarrow> pystr) \<Rightarrow> ctx \<Rightarrow> json \<Rightarrow> (pystr \<times> json) list \<Rightarrow> pyerr + pystr" where
  "render_tds repr c it [] = Inr []"
| "render_tds repr c it ((w, col) # rest) =
     (case render_pattern_value repr col c it of
        Inl e \<Rightarrow> Inl e
      | Inr t \<Rightarrow>
          (case render_tds repr c it rest of
             Inl e \<Rightarrow> Inl e
           | Inr r \<Rightarrow>
               Inr (ascii ''<td style='' @ [39] @ html_escape w @ [39] @ ascii ''>'' @ t
                    @ ascii ''</td>'' @ r)))"

fun render_rows :: "(json \<Rightarrow> pystr) \<Rightarrow> ctx \<Rightarrow> (pystr \<times> json) list \<Rightarrow> json list \<Rightarrow> pyerr + pystr" where
  "render_rows repr c cells [] = Inr []"
| "render_rows repr c cells (it # its) =
     (case render_tds repr c it cells of
        Inl e \<Rightarrow> Inl e
      | Inr tds \<Rightarrow>
          (case render_rows repr c cells its of
             Inl e \<Rightarrow> Inl e
           | Inr r \<Rightarrow> Inr (ascii ''<tr>'' @ tds @ ascii ''</tr>'' @ r)))"

definition render_ths :: "(json \<Rightarrow> pystr) \<Rightarrow> (pystr \<times> json) list \<Rightarrow> pystr" where
  "render_ths repr cells =
     concat (map (\<lambda>(w, h). ascii ''<th style='' @ [39] @ html_escape w @ [39] @ ascii ''>''
                            @ esc repr h @ ascii ''</th>'') cells)"

text \<open>
  The body of the loop \<open>for b in blocks\<close>: the node appended to \<open>out\<close>, if any. It runs
  on blocks that passed the validator; there \<open>cols\<close> is a non-empty list of strings,
  \<open>headers\<close> and \<open>col_widths_pct\<close> are lists or absent, and the values that are not
  lists are read as empty lists.
\<close>

definition render_block :: "(json \<Rightarrow> pystr) \<Rightarrow> ctx \<Rightarrow> pydict \<Rightarrow> json \<Rightarrow> pyerr + pystr option" where
  "render_block repr c question blk =
     (case blk of
        JDict b \<Rightarrow>
          (let kind = dget b (ascii ''kind'') in
           if kind = jstr ''line'' then
             (case render_pattern_value repr (dget_default b (ascii ''pattern'') (JStr [])) c JNone of
                Inl e \<Rightarrow> Inl e
              | Inr t \<Rightarrow> Inr (Some (ascii ''<div class='' @ [39] @ ascii ''line'' @ [39] @ ascii ''>''
                                     @ t @ ascii ''</div>'')))
           else if kind = jstr ''spacer'' then
             (case py_int (dget_default b (ascii ''mm'') (JInt 4)) of
                Inl e \<Rightarrow> Inl e
              | Inr mm \<Rightarrow> Inr (Some (ascii ''<div style='' @ [39] @ ascii ''height:'' @ str_int mm
                                      @ ascii ''mm'' @ [39] @ ascii ''></div>'')))
           else if kind = jstr ''list'' then
             (let pattern = dget_default b (ascii ''pattern'') (jstr ''{{item}}'');
                  bullet = truthy (dget_default b (ascii ''bullet'') (JBool True));
                  tag = (if bullet then ascii ''ul'' else ascii ''ol'')
              in case py_iter (source_items question (dget b (ascii ''source''))) of
                   Inl e \<Rightarrow> Inl e
                 | Inr items \<Rightarrow>
                     (case render_lis repr pattern c items of
                        Inl e \<Rightarrow> Inl e
                      | Inr lis \<Rightarrow>
                          Inr (Some (ascii ''<'' @ tag @ ascii ''>''
                                     @ (if lis = [] then ascii ''<li></li>'' else lis)
                                     @ ascii ''</'' @ tag @ ascii ''>''))))
           else if kind = jstr ''table'' then
             (let headers = list_items (py_or (dget b (ascii ''headers'')) (JList []));
                  cols = list_items (py_or (dget b (ascii ''cols'')) (JList []));
                  widths = list_items (py_or (dget b (ascii ''col_widths_pct'')) (JList []));
                  items = source_items question (dget b (ascii ''source''));
                  col_count = length cols
              in case width_style widths col_count of
                   Inl e \<Rightarrow> Inl e
                 | Inr ws \<Rightarrow>
                     (let head_html =
                            (if headers \<noteq> [] \<and> length headers = col_count then
                               ascii ''<thead><tr>'' @ render_ths repr (zip ws headers)
                               @ ascii ''</tr></thead>''
                             else [])
                      in case py_iter (py_or items (JList [JNone])) of
                           Inl e \<Rightarrow> Inl e
                         | Inr its \<Rightarrow>
                             (case render_rows repr c (zip ws cols) its of
                                Inl e \<Rightarrow> Inl e
                              | Inr rows_html \<Rightarrow>
                                  Inr (Some (ascii ''<table>'' @ head_html @ ascii ''<tbody>''
                                             @ rows_html @ ascii ''</tbody></table>'')))))
           else Inr None)
      | _ \<Rightarrow> Inl TypeError)"

fun render_blocks :: "(json \<Rightarrow> pystr) \<Rightarrow> ctx \<Rightarrow> pydict \<Rightarrow> json list \<Rightarrow> pyerr + pystr list" where
  "render_blocks repr c question [] = Inr []"
| "render_blocks repr c question (b # bs) =
     (case render_block repr c question b of
        Inl e \<Rightarrow> Inl e
      | Inr node \<Rightarrow>
          (case render_blocks repr c question bs of
             Inl e \<Rightarrow> Inl e
           | Inr out \<Rightarrow> Inr ((case node of None \<Rightarrow> [] | Some n \<Rightarrow> [n]) @ out)))"

text \<open>
  The task header. Its fixed parts are Cyrillic: the word for \<open>Task\<close>, the default
  prefixes \<open>PK\<close> and \<open>IPK\<close>, and an en dash between the two codes.
\<close>

definition TASK_WORD :: pystr where
  "TASK_WORD = [45, 32, 1047, 1072, 1076, 1072, 1085, 1080, 1077, 32]"

definition PK :: pystr where
  "PK = [1055, 1050]"

definition IPK :: pystr where
  "IPK = [1048, 1055, 1050]"

definition task_header :: "(json \<Rightarrow> pystr) \<Rightarrow> pydict \<Rightarrow> int \<Rightarrow> pystr" where
  "task_header repr metadata task_number =
     TASK_WORD @ str_int task_number @ ascii '' (''
     @ py_str repr (dget_default metadata (ascii ''pk_prefix'') (JStr PK)) @ ascii ''-''
     @ py_str repr (dget_default metadata (ascii ''pk_id'') (JStr []))
     @ [32, 8211, 32]
     @ py_str repr (dget_default metadata (ascii ''ipk_prefix'') (JStr IPK)) @ ascii ''-''
     @ py_str repr (dget_default metadata (ascii ''ipk_id'') (JStr [])) @ ascii '' ''
     @ py_str repr (dget_default metadata (ascii ''description'') (JStr [])) @ ascii '')''"

text \<open>The diagnostic node that a render returns for a configuration with errors.\<close>

definition template_error :: "pystr list \<Rightarrow> pystr" where
  "template_error errors =
     ascii ''<div class='' @ [39] @ ascii ''muted'' @ [39] @ ascii ''>Template error: ''
     @ html_escape (join (ascii ''; '') errors) @ ascii ''</div>''"

text \<open>
  The nodes of \<open>render_question_html\<close> before they are joined: the single diagnostic
  node, or the list \<open>out\<close>.
\<close>

definition render_nodes :: "(json \<Rightarrow> pystr) \<Rightarrow> json \<Rightarrow> pydict \<Rightarrow> pydict \<Rightarrow> int \<Rightarrow> pyerr + pystr list" where
  "render_nodes repr cfg question metadata task_number =
     (case validate_template_config_v2 repr cfg of
        Inl e \<Rightarrow> Inl e
      | Inr errors \<Rightarrow>
          if errors \<noteq> [] then Inr [template_error errors]
          else
            (case get_question_view repr question of
               Inl e \<Rightarrow> Inl e
             | Inr qv \<Rightarrow>
                 render_blocks repr
                   \<lparr> ctx_question = qv, ctx_metadata = metadata,
                     ctx_task_header = task_header repr metadata task_number \<rparr>
                   question
                   (list_items (py_or (dget (dict_or_empty cfg) (ascii ''blocks'')) (JList [])))))"

definition render_question_html :: "(json \<Rightarrow> pystr) \<Rightarrow> json \<Rightarrow> pydict \<Rightarrow> pydict \<Rightarrow> int \<Rightarrow> pyerr + pystr" where
  "render_question_html repr cfg question metadata task_number =
     (case render_nodes repr cfg question metadata task_number of
        Inl e \<Rightarrow> Inl e
      | Inr out \<Rightarrow> Inr (join [10] out))"

section \<open>Reference notions for the properties\<close>

text \<open>
  The pairs of a matching question as the specification describes them: for every
  sub-question with an answer element, its prompt text with the text of that answer.
\<close>

definition subquestion_pairs :: "xml list \<Rightarrow> (pystr \<times> pystr) list" where
  "subquestion_pairs sqs =
     concat (map (\<lambda>sq. case find_desc (ascii ''answer'') sq of
                          None \<Rightarrow> []
                        | Some a \<Rightarrow> [(text_if_any (find_desc (ascii ''text'') sq),
                                      text_if_any (find_desc (ascii ''text'') a))]) sqs)"

text \<open>The label that the \<open>truefalse\<close> loop computes for an answer element with text.\<close>

definition tf_label :: "strlib \<Rightarrow> xml \<Rightarrow> pystr" where
  "tf_label L a =
     (let answer_text = py_lower L (strip (text_if_any (find_desc (ascii ''text'') a))) in
      if answer_text = ascii ''true'' then VERNO
      else if answer_text = ascii ''false'' then NEVERNO
      else answer_text)"

text \<open>A positive weight fraction, for a finite or infinite \<open>float\<close>.\<close>

definition is_positive :: "pyfloat \<Rightarrow> bool" where
  "is_positive f = (case f of Fin r \<Rightarrow> 0 < r | PInf \<Rightarrow> True | NInf \<Rightarrow> False | NaN \<Rightarrow> False)"

text \<open>
  What an element of \<open>all_elements\<close> is for the grouping: a category whose course name
  resolves, a category that is ignored, or a question.
\<close>

datatype ekind = ValidCategory | IgnoredCategory | QuestionElem

definition kind_of :: "xml \<Rightarrow> ekind" where
  "kind_of e =
     (if elem_get e (ascii ''type'') [] = ascii ''category'' then
        (case extract_course_name e of
           None \<Rightarrow> IgnoredCategory
         | Some n \<Rightarrow> if n \<noteq> [] then ValidCategory else IgnoredCategory)
      else QuestionElem)"

text \<open>
  The course count as the specification words it. A stream has a question before its
  next valid category; a valid category counts when the stream after it has one; the
  uncategorized course is there when the whole stream has one.
\<close>

definition question_before_next_category :: "ekind list \<Rightarrow> bool" where
  "question_before_next_category ks =
     (QuestionElem \<in> set (takeWhile (\<lambda>k. k \<noteq> ValidCategory) ks))"

fun categories_with_questions :: "ekind list \<Rightarrow> nat" where
  "categories_with_questions [] = 0"
| "categories_with_questions (k # ks) =
     (if k = ValidCategory \<and> question_before_next_category ks then 1 else 0)
     + categories_with_questions ks"

definition expected_course_count :: "ekind list \<Rightarrow> nat" where
  "expected_course_count ks =
     categories_with_questions ks + (if question_before_next_category ks then 1 else 0)"

text \<open>The invariant of the grouping loop: an open course has at least one question.\<close>

definition state_ok :: "pstate \<Rightarrow> bool" where
  "state_ok st = (case current_course st of None \<Rightarrow> True | Some c \<Rightarrow> questions c \<noteq> [])"

text \<open>
  A text has a complete CDATA section when, at some position, the opener is followed
  by a closer: this is where the pattern of \<open>clean_xml_file\<close> matches.
\<close>

fun has_cdata :: "pystr \<Rightarrow> bool" where
  "has_cdata [] = False"
| "has_cdata (c # cs) =
     ((startswith (c # cs) CDATA_OPEN
        \<and> split_at_first CDATA_CLOSE (drop (length CDATA_OPEN) (c # cs)) \<noteq> None)
      \<or> has_cdata cs)"

text \<open>The number of \<open><\<close> in a text.\<close>

definition count_lt :: "pystr \<Rightarrow> nat" where
  "count_lt s = length (filter (\<lambda>x. x = 60) s)"

text \<open>
  The two parts of an expression, as \<open>_eval_pipe\<close> splits it: the text before the first
  bar and the text behind it, both stripped. An expression without a bar is its own base.
\<close>

definition base_of :: "pystr \<Rightarrow> pystr" where
  "base_of e = strip (takeWhile (\<lambda>x. x \<noteq> 124) (strip e))"

definition pipe_op :: "pystr \<Rightarrow> pystr" where
  "pipe_op e = strip (drop 1 (dropWhile (\<lambda>x. x \<noteq> 124) (strip e)))"

text \<open>
  An unresolved lookup, in the words of the specification: the base has none of the five
  forms, or it names a field that the question, the metadata or the item does not have,
  or it refers to the item where there is none (\<open>item\<close> is \<open>JNone\<close> outside a loop) or
  where the item has no fields.
\<close>

definition unknown_form :: "pystr \<Rightarrow> bool" where
  "unknown_form b =
     (\<not> startswith b (ascii ''question.'') \<and> \<not> startswith b (ascii ''metadata.'')
      \<and> b \<noteq> ascii ''task.header'' \<and> b \<noteq> ascii ''item'' \<and> \<not> startswith b (ascii ''item.''))"

definition unresolved :: "ctx \<Rightarrow> json \<Rightarrow> pystr \<Rightarrow> bool" where
  "unresolved c item b =
     (unknown_form b
      \<or> (startswith b (ascii ''question.'')
           \<and> drop (length (ascii ''question.'')) b \<notin> fst ` set (ctx_question c))
      \<or> (startswith b (ascii ''metadata.'')
           \<and> drop (length (ascii ''metadata.'')) b \<notin> fst ` set (ctx_metadata c))
      \<or> (startswith b (ascii ''item.'')
           \<and> (\<not> is_dict item
                \<or> drop (length (ascii ''item.'')) b \<notin> fst ` set (dict_or_empty item)))
      \<or> (b = ascii ''item'' \<and> item = JNone))"

text \<open>A dictionary without the key \<open>k\<close>.\<close>

definition dict_del :: "pydict \<Rightarrow> pystr \<Rightarrow> pydict" where
  "dict_del d k = filter (\<lambda>(k', v). k' \<noteq> k) d"

text \<open>
  The value of an expression without a bar: the chain of lookups at the end of
  \<open>_eval_pipe\<close>, on the stripped text.
\<close>

definition lookup :: "(json \<Rightarrow> pystr) \<Rightarrow> pystr \<Rightarrow> ctx \<Rightarrow> json \<Rightarrow> pystr" where
  "lookup repr expr c item =
     (if startswith expr (ascii ''question.'') then
        (let key = drop (length (ascii ''question.'')) expr in
         if key \<notin> fst ` set (ctx_question c) then []
         else py_str repr (py_or (dget (ctx_question c) key) (JStr [])))
      else if startswith expr (ascii ''metadata.'') then
        (let key = drop (length (ascii ''metadata.'')) expr in
         if key \<notin> fst ` set (ctx_metadata c) then []
         else py_str repr (py_or (dget (ctx_metadata c) key) (JStr [])))
      else if expr = ascii ''task.header'' then ctx_task_header c
      else if expr = ascii ''item'' then (if item = JNone then [] else py_str repr item)
      else if startswith expr (ascii ''item.'') \<and> is_dict item then
        py_str repr
          (py_or (dget_default (dict_or_empty item) (drop (length (ascii ''item.'')) expr) (JStr []))
                 (JStr []))
      else [])"

text \<open>The style \<open>f"width:{int(w)}%"\<close> of one entry of a width list.\<close>

definition width_text :: "json \<Rightarrow> pystr" where
  "width_text w = ascii ''width:'' @ str_int (int_value w) @ ascii ''%''"

text \<open>
  The node of a table block for a given list of column styles: the table branch of the
  loop of \<open>render_question_html\<close> behind the computation of \<open>width_style\<close>.
\<close>

definition table_with_styles :: "(json \<Rightarrow> pystr) \<Rightarrow> ctx \<Rightarrow> pydict \<Rightarrow> pydict \<Rightarrow> pystr list \<Rightarrow> pyerr + pystr option" where
  "table_with_styles repr c question b styles =
     (let headers = list_items (py_or (dget b (ascii ''headers'')) (JList []));
          cols = list_items (py_or (dget b (ascii ''cols'')) (JList []));
          items = source_items question (dget b (ascii ''source''));
          head_html =
            (if headers \<noteq> [] \<and> length headers = length cols then
               ascii ''<thead><tr>'' @ render_ths repr (zip styles headers) @ ascii ''</tr></thead>''
             else [])
      in case py_iter (py_or items (JList [JNone])) of
           Inl e \<Rightarrow> Inl e
         | Inr its \<Rightarrow>
             (case render_rows repr c (zip styles cols) its of
                Inl e \<Rightarrow> Inl e
              | Inr rows_html \<Rightarrow>
                  Inr (Some (ascii ''<table>'' @ head_html @ ascii ''<tbody>'' @ rows_html
                             @ ascii ''</tbody></table>''))))"

text \<open>
  What \<open>render_question_html\<close> produces for the configuration \<open>c\<close> with the blocks
  \<open>pre\<close>, the table block \<open>b\<close> and \<open>post\<close>, when the columns of \<open>b\<close> get the styles
  \<open>styles\<close>: the diagnostic of the validator, or the nodes of \<open>pre\<close>, the table and the
  nodes of \<open>post\<close>.
\<close>

definition render_nodes_styled :: "(json \<Rightarrow> pystr) \<Rightarrow> pydict \<Rightarrow> json list \<Rightarrow> pydict \<Rightarrow> json list \<Rightarrow> pystr list \<Rightarrow> pydict \<Rightarrow> pydict \<Rightarrow> int \<Rightarrow> pyerr + pystr list" where
  "render_nodes_styled repr c pre b post styles question metadata task_number =
     (case validate_template_config_v2 repr (JDict c) of
        Inl e \<Rightarrow> Inl e
      | Inr errors \<Rightarrow>
          if errors \<noteq> [] then Inr [template_error errors]
          else
            (case get_question_view repr question of
               Inl e \<Rightarrow> Inl e
             | Inr qv \<Rightarrow>
                 (let cx = \<lparr> ctx_question = qv, ctx_metadata = metadata,
                              ctx_task_header = task_header repr metadata task_number \<rparr>
                  in case render_blocks repr cx question pre of
                       Inl e \<Rightarrow> Inl e
                     | Inr before \<Rightarrow>
                         (case table_with_styles repr cx question b styles of
                            Inl e \<Rightarrow> Inl e
                          | Inr node \<Rightarrow>
                              (case render_blocks repr cx question post of
                                 Inl e \<Rightarrow> Inl e
                               | Inr behind \<Rightarrow>
                                   Inr (before @ (case node of None \<Rightarrow> [] | Some t \<Rightarrow> [t])
                                        @ behind))))))"

text \<open>The configuration \<open>c\<close> with the width list of its table block \<open>b\<close> removed.\<close>

definition without_widths :: "pydict \<Rightarrow> json list \<Rightarrow> pydict \<Rightarrow> json list \<Rightarrow> json" where
  "without_widths c pre b post =
     JDict (dict_set c (ascii ''blocks'')
              (JList (pre @ JDict (dict_del b (ascii ''col_widths_pct'')) # post)))"

section \<open>Concrete inputs\<close>

text \<open>
  An instance of the two library functions for the examples: on a decimal integer literal
  with an optional minus sign \<open>float\<close> is the integer, on ASCII text \<open>lower\<close> maps
  \<open>A-Z\<close> to \<open>a-z\<close>. The examples stay inside this fragment, where the instance and
  Python agree.
\<close>

fun digits_value :: "nat \<Rightarrow> pystr \<Rightarrow> nat option" where
  "digits_value acc [] = Some acc"
| "digits_value acc (c # cs) =
     (if 48 \<le> c \<and> c \<le> 57 then digits_value (10 * acc + (c - 48)) cs else None)"

definition decimal_float :: "pystr \<Rightarrow> pyfloat option" where
  "decimal_float s =
     (case strip s of
        [] \<Rightarrow> None
      | c # cs \<Rightarrow>
          if c = 45 then (if cs = [] then None
                          else map_option (\<lambda>n. Fin (- of_nat n)) (digits_value 0 cs))
          else map_option (\<lambda>n. Fin (of_nat n)) (digits_value 0 (c # cs)))"

definition ascii_lower :: "pystr \<Rightarrow> pystr" where
  "ascii_lower s = map (\<lambda>c. if 65 \<le> c \<and> c \<le> 90 then c + 32 else c) s"

definition example_lib :: strlib where
  "example_lib = \<lparr> py_float = decimal_float, py_lower = ascii_lower \<rparr>"

text \<open>\<open><text>s</text>\<close> and an element with children only.\<close>

definition text_elem :: "string \<Rightarrow> xml" where
  "text_elem s = Element (ascii ''text'') [] (Some (ascii s)) []"

definition node :: "string \<Rightarrow> (string \<times> string) list \<Rightarrow> xml list \<Rightarrow> xml" where
  "node t attrs cs = Element (ascii t) (map (\<lambda>(k, v). (ascii k, ascii v)) attrs) None cs"

text \<open>
  A matching question with three sub-questions: \<open>b \<rightarrow> y\<close>, \<open>a \<rightarrow> x\<close>, and one whose answer
  has no text.
\<close>

definition matching_example :: xml where
  "matching_example =
     node ''question'' [(''type'', ''matching'')]
       [node ''questiontext'' [] [text_elem ''Match''],
        node ''subquestion'' [] [text_elem ''b'', node ''answer'' [] [text_elem ''y'']],
        node ''subquestion'' [] [text_elem ''a'', node ''answer'' [] [text_elem ''x'']],
        node ''subquestion'' [] [text_elem ''c'', node ''answer'' [] [node ''text'' [] []]]]"

definition matching_example_q :: question where
  "matching_example_q =
     \<lparr> qtype = ascii ''matching'', question_text = Some (ascii ''Match''),
       reference_answer = Some [], qname = Some [], answers = [], correct_answers = [],
       matching_items = [(ascii ''b'', ascii ''y''), (ascii ''a'', ascii ''x'')],
       matching_answers = [ascii ''x'', ascii ''y''] \<rparr>"

text \<open>A true/false question whose \<open>true\<close> answer carries the fraction 50.\<close>

definition truefalse_half :: xml where
  "truefalse_half =
     node ''question'' [(''type'', ''truefalse'')]
       [node ''questiontext'' [] [text_elem ''Is it?''],
        node ''answer'' [(''fraction'', ''50'')] [text_elem ''true''],
        node ''answer'' [(''fraction'', ''0'')] [text_elem ''false'']]"

definition truefalse_half_q :: question where
  "truefalse_half_q =
     \<lparr> qtype = ascii ''truefalse'', question_text = Some (ascii ''Is it?''),
       reference_answer = Some [], qname = Some [], answers = [VERNO, NEVERNO],
       correct_answers = [], matching_items = [], matching_answers = [] \<rparr>"

text \<open>A multiple choice question: 2 and 3 are correct, 4 is not, one answer has no text.\<close>

definition multichoice_example :: xml where
  "multichoice_example =
     node ''question'' [(''type'', ''multichoice'')]
       [node ''questiontext'' [] [text_elem ''Primes?''],
        node ''answer'' [(''fraction'', ''50'')] [text_elem ''2''],
        node ''answer'' [(''fraction'', ''50'')] [text_elem ''3''],
        node ''answer'' [(''fraction'', ''0'')] [text_elem ''4''],
        node ''answer'' [(''fraction'', ''100'')] [node ''text'' [] []]]"

definition multichoice_example_q :: question where
  "multichoice_example_q =
     \<lparr> qtype = ascii ''multichoice'', question_text = Some (ascii ''Primes?''),
       reference_answer = Some [], qname = Some [], answers = [ascii ''2'', ascii ''3'', ascii ''4''],
       correct_answers = [ascii ''2'', ascii ''3''], matching_items = [], matching_answers = [] \<rparr>"

text \<open>
  A category element with the given path below the prefix, an essay question, and a
  stream: one question, course A with two questions, a category without questions, the
  root category (ignored), and a nested category with one question.
\<close>

definition category_elem :: "string \<Rightarrow> xml" where
  "category_elem path =
     node ''question'' [(''type'', ''category'')]
       [node ''category'' []
          [Element (ascii ''text'') [] (Some (CATEGORY_PREFIX @ ascii path)) []]]"

definition essay_elem :: "string \<Rightarrow> xml" where
  "essay_elem s =
     node ''question'' [(''type'', ''essay'')] [node ''questiontext'' [] [text_elem s]]"

definition stream_example :: xml where
  "stream_example =
     node ''quiz'' []
       [essay_elem ''q0'',
        category_elem ''/Course A'',
        essay_elem ''q1'',
        essay_elem ''q2'',
        category_elem ''/Empty'',
        category_elem '''',
        category_elem ''/Course B/Topic'',
        essay_elem ''q3'']"

definition essay_q :: "string \<Rightarrow> question" where
  "essay_q s =
     \<lparr> qtype = ascii ''essay'', question_text = Some (ascii s), reference_answer = Some [],
       qname = Some [], answers = [], correct_answers = [], matching_items = [],
       matching_answers = [] \<rparr>"

definition stream_example_courses :: "course list" where
  "stream_example_courses =
     [\<lparr>cname = UNCATEGORIZED, questions = [essay_q ''q0'']\<rparr>,
      \<lparr>cname = ascii ''Course A'', questions = [essay_q ''q1'', essay_q ''q2'']\<rparr>,
      \<lparr>cname = ascii ''Topic'', questions = [essay_q ''q3'']\<rparr>]"

text \<open>
  Two inputs of the sanitizer: a paragraph in a CDATA section, and an empty CDATA
  section between a \<open><\<close> and the rest of an opener.
\<close>

definition cdata_example :: pystr where
  "cdata_example = ascii ''<a><![CDATA[<p>x</p>]]></a>''"

definition nested_opener :: pystr where
  "nested_opener = ascii ''<<![CDATA[]]>![CDATA[a]]>''"

text \<open>
  Inputs of the renderer: a \<open>repr\<close> that is not looked at (the examples format strings
  and integers only), a multiple choice question with one answer, a question whose only
  correct answer is the empty string, and the metadata of one code.
\<close>

definition example_repr :: "json \<Rightarrow> pystr" where
  "example_repr v = []"

definition example_question :: pydict where
  "example_question =
     [(ascii ''type'', jstr ''multichoice''), (ascii ''question_text'', jstr ''Q?''),
      (ascii ''answers'', JList [jstr ''2'']), (ascii ''correct_answers'', JList [jstr ''2''])]"

definition blank_answer_question :: pydict where
  "blank_answer_question =
     [(ascii ''type'', jstr ''truefalse''), (ascii ''question_text'', jstr ''Q?''),
      (ascii ''answers'', JList [jstr '''']), (ascii ''correct_answers'', JList [jstr ''''])]"

definition example_metadata :: pydict where
  "example_metadata = [(ascii ''pk_id'', jstr ''1.3'')]"

definition example_ctx :: ctx where
  "example_ctx = \<lparr> ctx_question = example_question, ctx_metadata = example_metadata,
                   ctx_task_header = ascii ''T'' \<rparr>"

definition blank_answer_ctx :: ctx where
  "blank_answer_ctx = \<lparr> ctx_question = blank_answer_question, ctx_metadata = example_metadata,
                        ctx_task_header = ascii ''T'' \<rparr>"

text \<open>
  A true/false question whose answer text is one space, with the fraction 100: its
  label, and so its correct answer, is the empty string.
\<close>

definition blank_label_elem :: xml where
  "blank_label_elem =
     node ''question'' [(''type'', ''truefalse'')]
       [node ''answer'' [(''fraction'', ''100'')] [text_elem '' '']]"

text \<open>
  A table block with one column and the width list \<open>[0]\<close>, the same block with the
  width list \<open>[10, 90]\<close>, and the configurations with one of them or without a list.
\<close>

definition zero_width_table :: pydict where
  "zero_width_table =
     [(ascii ''kind'', jstr ''table''), (ascii ''source'', jstr ''answers_all''),
      (ascii ''cols'', JList [jstr ''{{item}}'']), (ascii ''col_widths_pct'', JList [JInt 0])]"

definition long_width_table :: pydict where
  "long_width_table =
     [(ascii ''kind'', jstr ''table''), (ascii ''source'', jstr ''answers_all''),
      (ascii ''cols'', JList [jstr ''{{item}}'']),
      (ascii ''col_widths_pct'', JList [JInt 10, JInt 90])]"

definition zero_width_config :: json where
  "zero_width_config =
     JDict [(ascii ''version'', JInt 2), (ascii ''blocks'', JList [JDict zero_width_table])]"

definition long_width_config :: pydict where
  "long_width_config =
     [(ascii ''version'', JInt 2), (ascii ''blocks'', JList [JDict long_width_table])]"

definition zero_width_dict :: pydict where
  "zero_width_dict =
     [(ascii ''version'', JInt 2), (ascii ''blocks'', JList [JDict zero_width_table])]"

definition unweighted_config :: json where
  "unweighted_config =
     JDict [(ascii ''version'', JInt 2),
            (ascii ''blocks'', JList [JDict (dict_del zero_width_table (ascii ''col_widths_pct''))])]"

text \<open>The table of one row and one cell with the given style and text.\<close>

definition one_cell_table :: "string \<Rightarrow> string \<Rightarrow> pystr" where
  "one_cell_table style txt =
     ascii ''<table><tbody><tr><td style='' @ [39] @ ascii style @ [39] @ ascii ''>'' @ ascii txt
     @ ascii ''</td></tr></tbody></table>''"

section \<open>Evaluation of the concrete inputs\<close>

lemmas xml_eval = ascii_def node_def text_elem_def findall_desc_def find_desc_def
  find_desc_child_def descendants_def elem_get_def text_or_empty_def text_if_any_def

lemma matching_example_parsed:
  "parse_question_element example_lib matching_example = Inr matching_example_q"
  by (simp add: parse_question_element_def matching_example_def matching_example_q_def
        xml_eval Let_def)

lemmas str_eval = strip_def lstrip_def rstrip_def isspace_def startswith_def

lemmas lib_eval = fraction_of_def example_lib_def decimal_float_def ascii_lower_def

lemma truefalse_half_parsed:
  "parse_question_element example_lib truefalse_half = Inr truefalse_half_q"
  by (simp add: parse_question_element_def truefalse_half_def truefalse_half_q_def
        xml_eval Let_def lib_eval str_eval dict_set_def truefalse_answers_def
        VERNO_def NEVERNO_def)

lemma multichoice_example_parsed:
  "parse_question_element example_lib multichoice_example = Inr multichoice_example_q"
  by (simp add: parse_question_element_def multichoice_example_def multichoice_example_q_def
        xml_eval Let_def lib_eval str_eval)

lemma stream_example_elements:
  "findall_desc (ascii ''question'') stream_example =
     [essay_elem ''q0'', category_elem ''/Course A'', essay_elem ''q1'', essay_elem ''q2'',
      category_elem ''/Empty'', category_elem '''', category_elem ''/Course B/Topic'',
      essay_elem ''q3'']"
  by (simp add: stream_example_def essay_elem_def category_elem_def xml_eval)

lemma essay_elem_parsed: "parse_question_element L (essay_elem s) = Inr (essay_q s)"
  by (simp add: essay_elem_def essay_q_def parse_question_element_def xml_eval Let_def)

lemma example_elem_types:
  "elem_get (essay_elem s) (ascii ''type'') [] = ascii ''essay''"
  "elem_get (category_elem s) (ascii ''type'') [] = ascii ''category''"
  by (simp_all add: essay_elem_def category_elem_def xml_eval)

lemma example_category_names:
  "extract_course_name (category_elem ''/Course A'') = Some (ascii ''Course A'')"
  "extract_course_name (category_elem ''/Empty'') = Some (ascii ''Empty'')"
  "extract_course_name (category_elem '''') = None"
  "extract_course_name (category_elem ''/Course B/Topic'') = Some (ascii ''Topic'')"
  by (simp_all add: extract_course_name_def category_elem_def xml_eval CATEGORY_PREFIX_def
        str_eval Let_def)

lemma example_strings:
  "ascii ''essay'' \<noteq> ascii ''category''" "ascii ''Course A'' \<noteq> []"
  "ascii ''Empty'' \<noteq> []" "ascii ''Topic'' \<noteq> []"
  by (simp_all add: ascii_def)

lemma stream_example_parsed:
  "parse_courses_root L stream_example = Inr stream_example_courses"
  by (simp add: parse_courses_root_def stream_example_elements example_elem_types
        example_category_names essay_elem_parsed flush_course_def stream_example_courses_def
        example_strings)

lemma stream_example_kinds:
  "map kind_of (findall_desc (ascii ''question'') stream_example) =
     [QuestionElem, ValidCategory, QuestionElem, QuestionElem, ValidCategory, IgnoredCategory,
      ValidCategory, QuestionElem]"
  by (simp add: stream_example_elements kind_of_def example_elem_types example_category_names
        example_strings)

section \<open>Properties of the type extractors\<close>

lemma subquestion_pairs_Nil: "subquestion_pairs [] = []"
  by (simp add: subquestion_pairs_def)

lemma subquestion_pairs_Cons:
  "subquestion_pairs (sq # sqs) =
     (case find_desc (ascii ''answer'') sq of
        None \<Rightarrow> []
      | Some a \<Rightarrow> [(text_if_any (find_desc (ascii ''text'') sq),
                    text_if_any (find_desc (ascii ''text'') a))]) @ subquestion_pairs sqs"
  by (simp add: subquestion_pairs_def)

lemma matching_loop_fold:
  "matching_loop sqs (items, aset) =
     (items @ filter (\<lambda>(i, a). i \<noteq> [] \<and> a \<noteq> []) (subquestion_pairs sqs),
      fold List.insert
        (map snd (filter (\<lambda>(i, a). i \<noteq> [] \<and> a \<noteq> []) (subquestion_pairs sqs))) aset)"
proof (induction sqs arbitrary: items aset)
  case Nil
  show ?case by (simp add: subquestion_pairs_Nil)
next
  case (Cons sq sqs)
  show ?case
    by (cases "find_desc (ascii ''answer'') sq")
       (simp_all add: subquestion_pairs_Cons Cons.IH Let_def)
qed

lemma set_fold_insert: "set (fold List.insert xs ys) = set ys \<union> set xs"
  by (induction xs arbitrary: ys) auto

lemma distinct_fold_insert: "distinct ys \<Longrightarrow> distinct (fold List.insert xs ys)"
  by (induction xs arbitrary: ys) auto

lemma sorted_distinct_strict:
  "sorted xs \<Longrightarrow> distinct xs \<Longrightarrow> sorted_wrt (<) (xs :: 'a :: linorder list)"
  by (simp add: strict_sorted_iff)

lemma parse_question_element_type:
  "parse_question_element L qe = Inr q \<Longrightarrow> qtype q = elem_get qe (ascii ''type'') []"
  by (auto simp: parse_question_element_def Let_def split: if_splits sum.splits prod.splits)

text \<open>
  C6. For an extracted question of type \<open>matching\<close>: the retained items are exactly the
  sub-question pairs whose prompt and answer text are both non-empty, in document order
  (the others are skipped), and \<open>matching_answers\<close> is strictly ascending in the
  lexical order of strings, hence free of duplicates, and has the answer texts of the
  retained items as its elements.
\<close>

theorem matching_answers_sorted_unique:
  assumes "parse_question_element L qe = Inr q" and "qtype q = ascii ''matching''"
  shows "matching_items q
           = filter (\<lambda>(i, a). i \<noteq> [] \<and> a \<noteq> [])
               (subquestion_pairs (findall_desc (ascii ''subquestion'') qe))
       \<and> sorted_wrt (<) (matching_answers q)
       \<and> distinct (matching_answers q)
       \<and> set (matching_answers q) = snd ` set (matching_items q)"
proof -
  let ?r = "matching_loop (findall_desc (ascii ''subquestion'') qe) ([], [])"
  have ty: "elem_get qe (ascii ''type'') [] = ascii ''matching''"
    using assms parse_question_element_type by metis
  have ne: "ascii ''matching'' \<noteq> ascii ''multichoice''"
    by (simp add: ascii_def)
  have q: "q = \<lparr> qtype = ascii ''matching'',
                question_text = text_or_empty (find_desc_child (ascii ''questiontext'') (ascii ''text'') qe),
                reference_answer = text_or_empty (find_desc_child (ascii ''referenceanswer'') (ascii ''text'') qe),
                qname = text_or_empty (find_desc_child (ascii ''name'') (ascii ''text'') qe),
                answers = [], correct_answers = [],
                matching_items = fst ?r, matching_answers = sort (snd ?r) \<rparr>"
    using assms(1) ty ne by (simp add: parse_question_element_def Let_def split: prod.splits)
  have items: "matching_items q = fst ?r" and ans: "matching_answers q = sort (snd ?r)"
    by (simp_all add: q)
  have d: "distinct (snd ?r)"
    by (simp add: matching_loop_fold distinct_fold_insert)
  have s: "set (snd ?r) = snd ` set (fst ?r)"
    by (simp add: matching_loop_fold set_fold_insert)
  show ?thesis
    using d s by (simp add: items ans sorted_distinct_strict matching_loop_fold)
qed

theorem matching_answers_sorted_unique_witness:
  "parse_question_element example_lib matching_example = Inr matching_example_q
   \<and> qtype matching_example_q = ascii ''matching''
   \<and> matching_items matching_example_q
        = filter (\<lambda>(i, a). i \<noteq> [] \<and> a \<noteq> [])
            (subquestion_pairs (findall_desc (ascii ''subquestion'') matching_example))
   \<and> sorted_wrt (<) (matching_answers matching_example_q)
   \<and> distinct (matching_answers matching_example_q)
   \<and> set (matching_answers matching_example_q) = snd ` set (matching_items matching_example_q)"
proof -
  have h1: "parse_question_element example_lib matching_example = Inr matching_example_q"
    by (rule matching_example_parsed)
  have h2: "qtype matching_example_q = ascii ''matching''"
    by (simp add: matching_example_q_def)
  show ?thesis
    using h1 h2 matching_answers_sorted_unique [OF h1 h2] by blast
qed

lemma multichoice_loop_subset:
  "multichoice_loop L as (ans, cor) = Inr (ans', cor') \<Longrightarrow> set cor \<subseteq> set ans
     \<Longrightarrow> set cor' \<subseteq> set ans'"
proof (induction as arbitrary: ans cor)
  case Nil
  then show ?case by simp
next
  case (Cons a as)
  show ?case
  proof (cases "text_if_any (find_desc (ascii ''text'') a) = []")
    case True
    with Cons show ?thesis by simp
  next
    case False
    with Cons.prems obtain f where f: "fraction_of L a = Some f"
      by (auto simp: Let_def split: option.splits)
    show ?thesis
      using Cons.prems False f
        Cons.IH [of "ans @ [text_if_any (find_desc (ascii ''text'') a)]"
          "if f \<noteq> Fin 0 then cor @ [text_if_any (find_desc (ascii ''text'') a)] else cor"]
      by (auto simp: Let_def split: if_splits)
  qed
qed

lemma multichoice_loop_nonempty:
  "multichoice_loop L as (ans, cor) = Inr (ans', cor') \<Longrightarrow>
   (cor' \<noteq> [] \<longleftrightarrow> cor \<noteq> [] \<or>
      (\<exists>a\<in>set as. text_if_any (find_desc (ascii ''text'') a) \<noteq> []
          \<and> (\<exists>f. fraction_of L a = Some f \<and> f \<noteq> Fin 0)))"
proof (induction as arbitrary: ans cor)
  case Nil
  then show ?case by simp
next
  case (Cons a as)
  show ?case
  proof (cases "text_if_any (find_desc (ascii ''text'') a) = []")
    case True
    with Cons show ?thesis by simp
  next
    case False
    with Cons.prems obtain f where f: "fraction_of L a = Some f"
      by (auto simp: Let_def split: option.splits)
    show ?thesis
      using Cons.prems False f
        Cons.IH [of "ans @ [text_if_any (find_desc (ascii ''text'') a)]"
          "if f \<noteq> Fin 0 then cor @ [text_if_any (find_desc (ascii ''text'') a)] else cor"]
      by (auto simp: Let_def split: if_splits)
  qed
qed

lemma keys_dict_set: "fst ` set (dict_set d k v) = insert k (fst ` set d)"
  by (force simp: dict_set_def split: if_splits)

lemma set_truefalse_answers: "set (truefalse_answers d) = fst ` set d"
  by (force simp: truefalse_answers_def)

lemma truefalse_loop_Cons:
  "truefalse_loop L (a # as) (d, cor) =
     (if text_if_any (find_desc (ascii ''text'') a) = [] then truefalse_loop L as (d, cor)
      else case fraction_of L a of
             None \<Rightarrow> Inl ValueError
           | Some f \<Rightarrow>
               truefalse_loop L as
                 (dict_set d (tf_label L a) (f = Fin 100),
                  if f = Fin 100 then cor @ [tf_label L a] else cor))"
  by (simp add: Let_def tf_label_def split: option.splits)

lemma truefalse_loop_subset:
  "truefalse_loop L as (d, cor) = Inr (d', cor') \<Longrightarrow> set cor \<subseteq> fst ` set d
     \<Longrightarrow> set cor' \<subseteq> fst ` set d'"
proof (induction as arbitrary: d cor)
  case Nil
  then show ?case by simp
next
  case (Cons a as)
  show ?case
  proof (cases "text_if_any (find_desc (ascii ''text'') a) = []")
    case True
    with Cons show ?thesis
      by (simp add: truefalse_loop_Cons del: truefalse_loop.simps)
  next
    case False
    with Cons.prems obtain f where f: "fraction_of L a = Some f"
      by (auto simp: truefalse_loop_Cons simp del: truefalse_loop.simps split: option.splits)
    have "set (if f = Fin 100 then cor @ [tf_label L a] else cor)
            \<subseteq> fst ` set (dict_set d (tf_label L a) (f = Fin 100))"
      using Cons.prems(2) by (auto simp: keys_dict_set)
    then show ?thesis
      using Cons.prems(1) False f Cons.IH
      by (simp add: truefalse_loop_Cons del: truefalse_loop.simps)
  qed
qed

lemma truefalse_loop_nonempty:
  "truefalse_loop L as (d, cor) = Inr (d', cor') \<Longrightarrow>
   (cor' \<noteq> [] \<longleftrightarrow> cor \<noteq> [] \<or>
      (\<exists>a\<in>set as. text_if_any (find_desc (ascii ''text'') a) \<noteq> []
          \<and> (\<exists>f. fraction_of L a = Some f \<and> f = Fin 100)))"
proof (induction as arbitrary: d cor)
  case Nil
  then show ?case by simp
next
  case (Cons a as)
  show ?case
  proof (cases "text_if_any (find_desc (ascii ''text'') a) = []")
    case True
    with Cons show ?thesis
      by (simp add: truefalse_loop_Cons del: truefalse_loop.simps)
  next
    case False
    with Cons.prems obtain f where f: "fraction_of L a = Some f"
      by (auto simp: truefalse_loop_Cons simp del: truefalse_loop.simps split: option.splits)
    show ?thesis
      using Cons.prems False f
        Cons.IH [of "dict_set d (tf_label L a) (f = Fin 100)"
          "if f = Fin 100 then cor @ [tf_label L a] else cor"]
      by (auto simp: truefalse_loop_Cons simp del: truefalse_loop.simps split: if_splits)
  qed
qed

lemma type_names_differ:
  "ascii ''truefalse'' \<noteq> ascii ''multichoice''" "ascii ''truefalse'' \<noteq> ascii ''matching''"
  "ascii ''truefalse'' \<noteq> ascii ''shortanswer''"
  by (simp_all add: ascii_def)

text \<open>
  C3, as the code has it. For an extracted question of type \<open>multichoice\<close> or
  \<open>truefalse\<close>, every element of \<open>correct_answers\<close> is an element of \<open>answers\<close>, and
  \<open>correct_answers\<close> is non-empty exactly when some answer element with a non-empty text
  has a fraction different from 0 (\<open>multichoice\<close>), respectively equal to 100
  (\<open>truefalse\<close>).
\<close>

theorem correct_answers_in_answers:
  assumes "parse_question_element L qe = Inr q"
      and "qtype q = ascii ''multichoice'' \<or> qtype q = ascii ''truefalse''"
  shows "set (correct_answers q) \<subseteq> set (answers q)
       \<and> (correct_answers q \<noteq> [] \<longleftrightarrow>
            (\<exists>a\<in>set (findall_desc (ascii ''answer'') qe).
                text_if_any (find_desc (ascii ''text'') a) \<noteq> []
              \<and> (\<exists>f. fraction_of L a = Some f
                     \<and> (if qtype q = ascii ''multichoice'' then f \<noteq> Fin 0 else f = Fin 100))))"
proof -
  have ty: "elem_get qe (ascii ''type'') [] = qtype q"
    using assms(1) parse_question_element_type by metis
  from assms(2) show ?thesis
  proof
    assume m: "qtype q = ascii ''multichoice''"
    with assms(1) ty obtain ans cor where
      l: "multichoice_loop L (findall_desc (ascii ''answer'') qe) ([], []) = Inr (ans, cor)"
      and q: "answers q = ans" "correct_answers q = cor"
      by (auto simp: parse_question_element_def Let_def split: sum.splits)
    show ?thesis
      using multichoice_loop_subset [OF l] multichoice_loop_nonempty [OF l] m q by simp
  next
    assume t: "qtype q = ascii ''truefalse''"
    with assms(1) ty obtain d cor where
      l: "truefalse_loop L (findall_desc (ascii ''answer'') qe) ([], []) = Inr (d, cor)"
      and q: "answers q = truefalse_answers d" "correct_answers q = cor"
      by (auto simp: parse_question_element_def Let_def type_names_differ split: sum.splits)
    show ?thesis
      using truefalse_loop_subset [OF l] truefalse_loop_nonempty [OF l] t q
      by (simp add: set_truefalse_answers type_names_differ)
  qed
qed

theorem correct_answers_in_answers_witness:
  "parse_question_element example_lib multichoice_example = Inr multichoice_example_q
   \<and> (qtype multichoice_example_q = ascii ''multichoice''
        \<or> qtype multichoice_example_q = ascii ''truefalse'')
   \<and> set (correct_answers multichoice_example_q) \<subseteq> set (answers multichoice_example_q)
   \<and> (correct_answers multichoice_example_q \<noteq> [] \<longleftrightarrow>
        (\<exists>a\<in>set (findall_desc (ascii ''answer'') multichoice_example).
            text_if_any (find_desc (ascii ''text'') a) \<noteq> []
          \<and> (\<exists>f. fraction_of example_lib a = Some f
                 \<and> (if qtype multichoice_example_q = ascii ''multichoice'' then f \<noteq> Fin 0
                     else f = Fin 100))))"
proof -
  have h1: "parse_question_element example_lib multichoice_example = Inr multichoice_example_q"
    by (rule multichoice_example_parsed)
  have h2: "qtype multichoice_example_q = ascii ''multichoice''
              \<or> qtype multichoice_example_q = ascii ''truefalse''"
    by (simp add: multichoice_example_q_def)
  show ?thesis
    using h1 h2 correct_answers_in_answers [OF h1 h2] by blast
qed

text \<open>
  C3 as stated fails: the true/false question \<open>truefalse_half\<close> has an answer with the
  positive fraction 50, and its \<open>correct_answers\<close> is empty.
\<close>

theorem positive_fraction_counterexample:
  "parse_question_element example_lib truefalse_half = Inr truefalse_half_q
   \<and> qtype truefalse_half_q = ascii ''truefalse''
   \<and> \<not> (set (correct_answers truefalse_half_q) \<subseteq> set (answers truefalse_half_q)
          \<and> ((\<exists>a\<in>set (findall_desc (ascii ''answer'') truefalse_half).
                 \<exists>f. fraction_of example_lib a = Some f \<and> is_positive f)
               \<longrightarrow> correct_answers truefalse_half_q \<noteq> []))"
proof -
  have "fraction_of example_lib (node ''answer'' [(''fraction'', ''50'')] [text_elem ''true''])
          = Some (Fin 50)"
    by (simp add: lib_eval xml_eval str_eval)
  moreover have "node ''answer'' [(''fraction'', ''50'')] [text_elem ''true'']
          \<in> set (findall_desc (ascii ''answer'') truefalse_half)"
    by (simp add: truefalse_half_def xml_eval)
  moreover have "is_positive (Fin 50)"
    by (simp add: is_positive_def)
  ultimately have "\<exists>a\<in>set (findall_desc (ascii ''answer'') truefalse_half).
                 \<exists>f. fraction_of example_lib a = Some f \<and> is_positive f"
    by blast
  moreover have "correct_answers truefalse_half_q = []"
    by (simp add: truefalse_half_q_def)
  moreover have "qtype truefalse_half_q = ascii ''truefalse''"
    by (simp add: truefalse_half_q_def)
  ultimately show ?thesis
    using truefalse_half_parsed by blast
qed

section \<open>Properties of the grouping\<close>

lemma question_before_next_category_simps:
  "question_before_next_category [] = False"
  "question_before_next_category (ValidCategory # ks) = False"
  "question_before_next_category (QuestionElem # ks) = True"
  "question_before_next_category (IgnoredCategory # ks) = question_before_next_category ks"
  by (simp_all add: question_before_next_category_def)

text \<open>
  The loop from any state with the invariant: the courses already flushed, one for the
  open course or else for a question before the next valid category, and one for every
  later valid category with a question.
\<close>

lemma parse_courses_loop_count:
  "parse_courses_loop L es st = Inr st' \<Longrightarrow> state_ok st \<Longrightarrow>
   length (flush_course st') =
     length (courses st) + categories_with_questions (map kind_of es)
     + (if current_course st \<noteq> None \<or> question_before_next_category (map kind_of es)
        then 1 else 0)"
proof (induction es arbitrary: st)
  case Nil
  then show ?case
    by (auto simp: flush_course_def state_ok_def question_before_next_category_simps
        split: option.splits)
next
  case (Cons e es)
  show ?case
  proof (cases "kind_of e")
    case ValidCategory
    then obtain n where n: "elem_get e (ascii ''type'') [] = ascii ''category''"
        "extract_course_name e = Some n" "n \<noteq> []"
      by (auto simp: kind_of_def split: if_splits option.splits)
    let ?st = "st\<lparr>courses := flush_course st, last_category_name := Some n,
                     current_course_name := None, current_course := None\<rparr>"
    have l: "parse_courses_loop L es ?st = Inr st'"
      using Cons.prems(1) n by simp
    have ok: "state_ok ?st"
      by (simp add: state_ok_def)
    have fl: "length (flush_course st)
                = length (courses st) + (if current_course st \<noteq> None then 1 else 0)"
      using Cons.prems(2) by (auto simp: flush_course_def state_ok_def split: option.splits)
    show ?thesis
      using Cons.IH [OF l ok] fl ValidCategory
      by (simp add: question_before_next_category_simps)
  next
    case IgnoredCategory
    then have l: "parse_courses_loop L es st = Inr st'"
      using Cons.prems(1) by (auto simp: kind_of_def split: if_splits option.splits)
    show ?thesis
      using Cons.IH [OF l Cons.prems(2)] IgnoredCategory
      by (simp add: question_before_next_category_simps)
  next
    case QuestionElem
    then have nc: "elem_get e (ascii ''type'') [] \<noteq> ascii ''category''"
      by (auto simp: kind_of_def split: if_splits option.splits)
    from Cons.prems(1) nc obtain q where q: "parse_question_element L e = Inr q"
      by (auto simp: Let_def split: option.splits sum.splits if_splits)
    from Cons.prems(1) nc q obtain st2 where
      l: "parse_courses_loop L es st2 = Inr st'" and
      st2: "courses st2 = courses st" "\<exists>c. current_course st2 = Some c \<and> questions c \<noteq> []"
      by (auto simp: Let_def split: option.splits sum.splits if_splits)
    have ok: "state_ok st2"
      using st2 by (auto simp: state_ok_def)
    show ?thesis
      using Cons.IH [OF l ok] st2 QuestionElem
      by (auto simp: question_before_next_category_simps)
  qed
qed

text \<open>The loop returns when the extraction of every question element does.\<close>

lemma parse_courses_loop_returns:
  "\<forall>e\<in>set es. kind_of e = QuestionElem \<longrightarrow> (\<exists>q. parse_question_element L e = Inr q)
     \<Longrightarrow> \<exists>st'. parse_courses_loop L es st = Inr st'"
proof (induction es arbitrary: st)
  case Nil
  show ?case by simp
next
  case (Cons e es)
  have rest: "\<And>s. \<exists>st'. parse_courses_loop L es s = Inr st'"
    using Cons by simp
  show ?case
  proof (cases "elem_get e (ascii ''type'') [] = ascii ''category''")
    case True
    then show ?thesis
      using rest by (simp split: option.splits)
  next
    case False
    then have "kind_of e = QuestionElem"
      by (simp add: kind_of_def)
    then obtain q where "parse_question_element L e = Inr q"
      using Cons.prems by auto
    then show ?thesis
      using False rest by (simp add: Let_def split: option.splits)
  qed
qed

text \<open>
  C5. When the extraction of every question element of the stream returns,
  \<open>parse_courses\<close> returns, and the number of its courses is the number of valid
  categories that have a question before the next valid category or the end of the
  stream, plus one for the uncategorized course exactly when a question precedes the
  first valid category. Categories whose name does not resolve are ignored on both
  sides.
\<close>

theorem course_count:
  assumes "\<forall>e\<in>set (findall_desc (ascii ''question'') r).
             kind_of e = QuestionElem \<longrightarrow> (\<exists>q. parse_question_element L e = Inr q)"
  shows "\<exists>cs. parse_courses_root L r = Inr cs
             \<and> length cs = expected_course_count (map kind_of (findall_desc (ascii ''question'') r))"
proof -
  let ?init = "\<lparr>courses = [], current_course_name = None, current_course = None,
              last_category_name = None\<rparr>"
  obtain st where l: "parse_courses_loop L (findall_desc (ascii ''question'') r) ?init = Inr st"
    using parse_courses_loop_returns [OF assms] by blast
  have ok: "state_ok ?init"
    by (simp add: state_ok_def)
  have "length (flush_course st)
          = expected_course_count (map kind_of (findall_desc (ascii ''question'') r))"
    using parse_courses_loop_count [OF l ok] by (simp add: expected_course_count_def)
  then show ?thesis
    using l by (simp add: parse_courses_root_def)
qed

theorem course_count_witness:
  "(\<exists>cs. parse_courses_root example_lib stream_example = Inr cs
          \<and> length cs
              = expected_course_count (map kind_of (findall_desc (ascii ''question'') stream_example)))
   \<and> parse_courses_root example_lib stream_example = Inr stream_example_courses
   \<and> expected_course_count (map kind_of (findall_desc (ascii ''question'') stream_example)) = 3"
proof -
  have h: "\<forall>e\<in>set (findall_desc (ascii ''question'') stream_example).
       kind_of e = QuestionElem \<longrightarrow> (\<exists>q. parse_question_element example_lib e = Inr q)"
    by (simp add: stream_example_elements essay_elem_parsed kind_of_def example_elem_types
          example_category_names)
  have n: "expected_course_count (map kind_of (findall_desc (ascii ''question'') stream_example)) = 3"
    by (simp add: stream_example_kinds expected_course_count_def
          question_before_next_category_def)
  show ?thesis
    using h n course_count [OF h] stream_example_parsed [of example_lib] by blast
qed

lemma extend_all_concat: "extend_all acc cs = acc @ concat (map questions cs)"
  by (induction cs arbitrary: acc) auto

text \<open>
  C9. \<open>parse\<close> raises what \<open>parse_courses\<close> raises, and otherwise returns the
  concatenation, in course order, of the question lists of the courses that
  \<open>parse_courses\<close> returns.
\<close>

theorem parse_flattens_courses:
  "parse L loaded =
     (case parse_courses L loaded of
        Inl e \<Rightarrow> Inl e
      | Inr cs \<Rightarrow> Inr (concat (map questions cs)))"
  by (simp add: parse_def extend_all_concat split: sum.splits)

section \<open>Properties of the sanitizer\<close>

lemma clean_no_cdata: "\<not> has_cdata t \<Longrightarrow> clean_xml_file t = t"
  by (induction t) (auto split: option.splits)

lemma set_replace_char: "set (replace_char c r s) \<subseteq> (set s - {c}) \<union> set r"
  by (induction s) (auto simp: replace_char_def)

lemma escape_no_lt: "60 \<notin> set (escape_xml_text s)"
proof -
  have 1: "60 \<notin> set (replace_char 60 (ascii ''&lt;'') t)" for t
    using set_replace_char [of 60 "ascii ''&lt;''" t] by (auto simp: ascii_def)
  have 2: "60 \<notin> set t \<Longrightarrow> 60 \<notin> set (replace_char 62 (ascii ''&gt;'') t)" for t
    using set_replace_char [of 62 "ascii ''&gt;''" t] by (auto simp: ascii_def)
  have 3: "60 \<notin> set t \<Longrightarrow> 60 \<notin> set (replace_char 34 (ascii ''&quot;'') t)" for t
    using set_replace_char [of 34 "ascii ''&quot;''" t] by (auto simp: ascii_def)
  have 4: "60 \<notin> set t \<Longrightarrow> 60 \<notin> set (replace_char 39 (ascii ''&apos;'') t)" for t
    using set_replace_char [of 39 "ascii ''&apos;''" t] by (auto simp: ascii_def)
  show ?thesis
    using 1 2 3 4 by (simp add: escape_xml_text_def)
qed

lemma count_lt_replace_cdata: "count_lt (replace_cdata content) = 0"
  using escape_no_lt [of "strip (collapse_spaces False (fold sub_tag html_tags content))"]
  by (auto simp: count_lt_def replace_cdata_def filter_empty_conv)

lemma split_at_first_append:
  "split_at_first pat s = Some (a, b) \<Longrightarrow> s = a @ pat @ b"
proof (induction s arbitrary: a)
  case Nil
  then show ?case by (simp split: if_splits)
next
  case (Cons c cs)
  show ?case
  proof (cases "startswith (c # cs) pat")
    case True
    then have "take (length pat) (c # cs) = pat" by (simp add: startswith_def)
    then have "c # cs = pat @ drop (length pat) (c # cs)"
      by (metis append_take_drop_id)
    with Cons.prems True show ?thesis by simp
  next
    case False
    with Cons show ?thesis
      by (auto split: option.splits)
  qed
qed

lemma count_lt_append: "count_lt (a @ b) = count_lt a + count_lt b"
  by (simp add: count_lt_def)

lemma count_lt_Cons: "count_lt (c # cs) = (if c = 60 then 1 else 0) + count_lt cs"
  by (simp add: count_lt_def)

lemma matched_section:
  assumes "startswith (c # cs) CDATA_OPEN"
      and "split_at_first CDATA_CLOSE (drop (length CDATA_OPEN) (c # cs)) = Some (content, behind)"
  shows "count_lt (c # cs) = 1 + count_lt content + count_lt behind"
proof -
  have "c # cs = CDATA_OPEN @ drop (length CDATA_OPEN) (c # cs)"
    using assms(1) by (metis append_take_drop_id startswith_def)
  also have "\<dots> = CDATA_OPEN @ content @ CDATA_CLOSE @ behind"
    using split_at_first_append [OF assms(2)] by simp
  finally have "count_lt (c # cs) = count_lt (CDATA_OPEN @ content @ CDATA_CLOSE @ behind)"
    by simp
  also have "\<dots> = 1 + count_lt content + count_lt behind"
    by (simp add: count_lt_append) (simp add: count_lt_def CDATA_OPEN_def CDATA_CLOSE_def ascii_def)
  finally show ?thesis .
qed

lemma count_lt_clean_le: "count_lt (clean_xml_file t) \<le> count_lt t"
proof (induction t rule: clean_xml_file.induct)
  case 1
  show ?case by simp
next
  case (2 c cs)
  show ?case
  proof (cases "startswith (c # cs) CDATA_OPEN")
    case False
    with 2 show ?thesis by (simp add: count_lt_Cons)
  next
    case True
    show ?thesis
    proof (cases "split_at_first CDATA_CLOSE (drop (length CDATA_OPEN) (c # cs))")
      case None
      with 2 True show ?thesis by (simp add: count_lt_Cons)
    next
      case (Some p)
      obtain content behind where p: "p = (content, behind)" by (cases p)
      have "count_lt (clean_xml_file behind) \<le> count_lt behind"
        using 2(2) [OF True Some [unfolded p]] by simp
      then show ?thesis
        using True Some p matched_section [OF True Some [unfolded p]]
        by (simp add: count_lt_append count_lt_replace_cdata)
    qed
  qed
qed

lemma count_lt_clean_less: "has_cdata t \<Longrightarrow> count_lt (clean_xml_file t) < count_lt t"
proof (induction t rule: clean_xml_file.induct)
  case 1
  then show ?case by simp
next
  case (2 c cs)
  show ?case
  proof (cases "startswith (c # cs) CDATA_OPEN")
    case False
    with 2 show ?thesis by (simp add: count_lt_Cons)
  next
    case True
    show ?thesis
    proof (cases "split_at_first CDATA_CLOSE (drop (length CDATA_OPEN) (c # cs))")
      case None
      with 2 True show ?thesis by (simp add: count_lt_Cons)
    next
      case (Some p)
      obtain content behind where p: "p = (content, behind)" by (cases p)
      have "count_lt (clean_xml_file behind) \<le> count_lt behind"
        by (rule count_lt_clean_le)
      then show ?thesis
        using True Some p matched_section [OF True Some [unfolded p]]
        by (simp add: count_lt_append count_lt_replace_cdata)
    qed
  qed
qed

lemma clean_fixed_iff: "clean_xml_file t = t \<longleftrightarrow> \<not> has_cdata t"
  using clean_no_cdata count_lt_clean_less by (metis less_irrefl)

text \<open>
  C7, as the code has it. A second pass of the sanitizer leaves the output of the first
  unchanged exactly when that output has no complete CDATA section; the sanitizer is the
  identity on the texts without one, and changes every other text.
\<close>

theorem clean_idempotent_iff:
  "clean_xml_file (clean_xml_file s) = clean_xml_file s \<longleftrightarrow> \<not> has_cdata (clean_xml_file s)"
  by (rule clean_fixed_iff)

lemma replace_cdata_examples:
  "replace_cdata [] = []"
  "replace_cdata (ascii ''a'') = ascii ''a''"
  "replace_cdata (ascii ''<p>x</p>'') = ascii ''x''"
  by (simp_all add: replace_cdata_def html_tags_def escape_xml_text_def str_eval ascii_def
        replace_char_def ci_match_def)

lemma cdata_example_cleaned: "clean_xml_file cdata_example = ascii ''<a>x</a>''"
  using replace_cdata_examples(3)
  by (simp add: cdata_example_def ascii_def CDATA_OPEN_def CDATA_CLOSE_def startswith_def)

theorem clean_idempotent_iff_witness:
  "clean_xml_file (clean_xml_file cdata_example) = clean_xml_file cdata_example
   \<and> clean_xml_file cdata_example = ascii ''<a>x</a>''"
proof -
  have "\<not> has_cdata (ascii ''<a>x</a>'')"
    by (simp add: ascii_def CDATA_OPEN_def startswith_def)
  then show ?thesis
    using clean_idempotent_iff [of cdata_example] by (simp add: cdata_example_cleaned)
qed

text \<open>
  C7 as stated fails: the first pass turns \<open>nested_opener\<close> into a CDATA section, which
  the second pass replaces by its content.
\<close>

theorem clean_not_idempotent_counterexample:
  "clean_xml_file nested_opener = ascii ''<![CDATA[a]]>''
   \<and> clean_xml_file (clean_xml_file nested_opener) = ascii ''a''
   \<and> clean_xml_file (clean_xml_file nested_opener) \<noteq> clean_xml_file nested_opener"
proof -
  have 1: "clean_xml_file nested_opener = ascii ''<![CDATA[a]]>''"
    by (simp add: nested_opener_def ascii_def CDATA_OPEN_def CDATA_CLOSE_def startswith_def
          replace_cdata_examples(1))
  have 2: "clean_xml_file (ascii ''<![CDATA[a]]>'') = ascii ''a''"
    using replace_cdata_examples(2)
    by (simp add: ascii_def CDATA_OPEN_def CDATA_CLOSE_def startswith_def)
  have 3: "ascii ''a'' \<noteq> ascii ''<![CDATA[a]]>''"
    by (simp add: ascii_def)
  show ?thesis
    using 1 2 3 by simp
qed

section \<open>Properties of the expression evaluator\<close>

lemma not_space_bar: "\<not> isspace 124"
  by (simp add: isspace_def)

lemma lstrip_simps:
  "lstrip [] = []"
  "lstrip (x # xs) = (if isspace x then lstrip xs else x # xs)"
  by (simp_all add: lstrip_def)

lemma rstrip_Nil: "rstrip [] = []"
  by (simp add: rstrip_def)

lemma rstrip_Cons: "rstrip (x # xs) = (if rstrip xs = [] \<and> isspace x then [] else x # rstrip xs)"
  by (auto simp: rstrip_def dropWhile_append)

lemma lstrip_idem: "lstrip (lstrip s) = lstrip s"
  by (simp add: lstrip_def dropWhile_idem)

lemma rstrip_idem: "rstrip (rstrip s) = rstrip s"
  by (simp add: rstrip_def dropWhile_idem)

lemma lstrip_rstrip: "lstrip (rstrip s) = rstrip (lstrip s)"
proof (induction s)
  case Nil
  show ?case by (simp add: lstrip_simps rstrip_Nil)
next
  case (Cons x xs)
  show ?case
  proof (cases "isspace x")
    case False
    then show ?thesis by (simp add: rstrip_Cons lstrip_simps)
  next
    case True
    show ?thesis
    proof (cases "rstrip xs = []")
      case e: True
      then have "rstrip (lstrip xs) = []"
        using Cons by (metis lstrip_simps(1))
      with True e show ?thesis by (simp add: rstrip_Cons lstrip_simps)
    next
      case False
      with True Cons show ?thesis by (simp add: rstrip_Cons lstrip_simps)
    qed
  qed
qed

lemma strip_idem: "strip (strip s) = strip s"
  by (simp add: strip_def lstrip_rstrip lstrip_idem rstrip_idem)

lemma strip_lstrip: "strip (lstrip s) = strip s"
  by (simp add: strip_def lstrip_idem)

lemma strip_rstrip: "strip (rstrip s) = strip s"
  by (simp add: strip_def lstrip_rstrip rstrip_idem)

lemma lstrip_bar: "lstrip (b @ 124 # r) = lstrip b @ 124 # r"
  by (induction b) (auto simp: lstrip_simps not_space_bar)

lemma rstrip_bar: "rstrip (b @ 124 # r) = b @ 124 # rstrip r"
  by (induction b) (auto simp: rstrip_Cons not_space_bar)

lemma strip_bar: "strip (b @ 124 # r) = lstrip b @ 124 # rstrip r"
  by (simp add: strip_def lstrip_bar rstrip_bar)

lemma set_lstrip: "set (lstrip s) \<subseteq> set s"
  using set_dropWhileD [of _ isspace s] by (auto simp: lstrip_def)

lemma set_rstrip: "set (rstrip s) \<subseteq> set s"
  using set_dropWhileD [of _ isspace "rev s"] by (auto simp: rstrip_def)

lemma set_strip: "set (strip s) \<subseteq> set s"
  using set_lstrip set_rstrip unfolding strip_def by blast

lemma base_of_bar: "124 \<notin> set b \<Longrightarrow> base_of (b @ 124 # r) = strip b"
proof -
  assume n: "124 \<notin> set b"
  then have "124 \<notin> set (lstrip b)" using set_lstrip by blast
  then have "takeWhile (\<lambda>x. x \<noteq> 124) (lstrip b @ 124 # rstrip r) = lstrip b"
    by (auto simp: takeWhile_tail)
  then show ?thesis
    by (simp add: base_of_def strip_bar strip_lstrip)
qed

lemma pipe_op_bar: "124 \<notin> set b \<Longrightarrow> pipe_op (b @ 124 # r) = strip r"
proof -
  assume n: "124 \<notin> set b"
  then have "124 \<notin> set (lstrip b)" using set_lstrip by blast
  then have "dropWhile (\<lambda>x. x \<noteq> 124) (lstrip b @ 124 # rstrip r) = 124 # rstrip r"
    by (auto simp: dropWhile_append3)
  then show ?thesis
    by (simp add: pipe_op_def strip_bar strip_rstrip)
qed

lemma base_of_no_bar: "124 \<notin> set (strip e) \<Longrightarrow> base_of e = strip e"
proof -
  assume "124 \<notin> set (strip e)"
  then have "takeWhile (\<lambda>x. x \<noteq> 124) (strip e) = strip e"
    by (auto simp: takeWhile_eq_all_conv)
  then show ?thesis
    unfolding base_of_def by (simp only: strip_idem)
qed

lemma base_of_stripped: "strip (base_of e) = base_of e" "124 \<notin> set (base_of e)"
proof -
  show "strip (base_of e) = base_of e" by (simp add: base_of_def strip_idem)
  have "124 \<notin> set (takeWhile (\<lambda>x. x \<noteq> 124) (strip e))"
    using set_takeWhileD by fastforce
  then show "124 \<notin> set (base_of e)"
    using set_strip unfolding base_of_def by blast
qed

lemma eval_no_bar: "124 \<notin> set (strip e) \<Longrightarrow> eval_pipe repr e c item = Inr (lookup repr (strip e) c item)"
  by (subst eval_pipe.simps) (simp add: Let_def lookup_def)

lemma eval_base_of: "eval_pipe repr (base_of e) c item = Inr (lookup repr (base_of e) c item)"
  using eval_no_bar [of "base_of e"] base_of_stripped [of e] by simp

lemma eval_bar:
  "124 \<in> set (strip e) \<Longrightarrow>
   eval_pipe repr e c item =
     (if pipe_op e = ascii ''is_correct'' then
        (case correct_set c of
           Inl err \<Rightarrow> Inl err
         | Inr correct \<Rightarrow> Inr (if JStr (lookup repr (base_of e) c item) \<in> set correct then ascii ''+'' else []))
      else if pipe_op e = ascii ''if_correct'' then
        (case correct_set c of
           Inl err \<Rightarrow> Inl err
         | Inr correct \<Rightarrow> Inr (if JStr (lookup repr (base_of e) c item) \<in> set correct
                               then lookup repr (base_of e) c item else []))
      else Inr (lookup repr (base_of e) c item))"
  using eval_base_of [of repr e c item] unfolding base_of_def pipe_op_def
  by (subst eval_pipe.simps) (simp add: Let_def)

lemma map_of_key_missing: "k \<notin> fst ` set d \<Longrightarrow> map_of d k = None"
  by (simp add: map_of_eq_None_iff)

lemma form_heads:
  "startswith b (ascii ''question.'') \<Longrightarrow> hd b = 113"
  "startswith b (ascii ''metadata.'') \<Longrightarrow> hd b = 109"
  "startswith b (ascii ''item.'') \<Longrightarrow> hd b = 105"
  by (cases b; simp add: startswith_def ascii_def)+

lemma form_consts:
  "\<not> startswith (ascii ''item'') (ascii ''question.'')"
  "\<not> startswith (ascii ''item'') (ascii ''metadata.'')"
  "\<not> startswith (ascii ''item'') (ascii ''item.'')"
  "ascii ''item'' \<noteq> ascii ''task.header''"
  "\<not> startswith (ascii ''task.header'') (ascii ''question.'')"
  "\<not> startswith (ascii ''task.header'') (ascii ''metadata.'')"
  "\<not> startswith (ascii ''task.header'') (ascii ''item.'')"
  by (simp_all add: startswith_def ascii_def)

lemma lookup_unresolved: "unresolved c item b \<Longrightarrow> lookup repr b c item = []"
proof -
  assume u: "unresolved c item b"
  consider (q) "startswith b (ascii ''question.'')"
    | (m) "\<not> startswith b (ascii ''question.'')" "startswith b (ascii ''metadata.'')"
    | (t) "b = ascii ''task.header''"
    | (i) "b = ascii ''item''"
    | (f) "startswith b (ascii ''item.'')"
    | (o) "unknown_form b"
    unfolding unknown_form_def by blast
  then show ?thesis
  proof cases
    case q
    then have "drop (length (ascii ''question.'')) b \<notin> fst ` set (ctx_question c)"
      using u form_heads [of b] form_consts unfolding unresolved_def unknown_form_def by auto
    with q show ?thesis by (simp add: lookup_def Let_def)
  next
    case m
    then have "drop (length (ascii ''metadata.'')) b \<notin> fst ` set (ctx_metadata c)"
      using u form_heads [of b] form_consts unfolding unresolved_def unknown_form_def by auto
    with m show ?thesis by (simp add: lookup_def Let_def)
  next
    case t
    then show ?thesis
      using u form_consts unfolding unresolved_def unknown_form_def by auto
  next
    case i
    then have "item = JNone"
      using u form_consts unfolding unresolved_def unknown_form_def by auto
    with i show ?thesis by (simp add: lookup_def form_consts)
  next
    case f
    then have nq: "\<not> startswith b (ascii ''question.'')" "\<not> startswith b (ascii ''metadata.'')"
      "b \<noteq> ascii ''task.header''" "b \<noteq> ascii ''item''"
      using form_heads [of b] form_consts by auto
    have "\<not> is_dict item \<or> drop (length (ascii ''item.'')) b \<notin> fst ` set (dict_or_empty item)"
      using u f nq unfolding unresolved_def unknown_form_def by auto
    then show ?thesis
      using f nq
      by (auto simp: lookup_def dget_default_def map_of_key_missing py_or_def)
  next
    case o
    then show ?thesis by (simp add: lookup_def unknown_form_def)
  qed
qed

text \<open>
  C8, as the code has it. When the base of an expression is an unresolved lookup, the
  base evaluates to the empty string without raising, and so does the expression when
  it has no bar or an unknown operator behind it. Under \<open>is_correct\<close> and \<open>if_correct\<close>
  the evaluator first builds the set of correct answers, which raises \<open>TypeError\<close> for a
  value that is not an iterable of hashable elements; otherwise the result is empty
  again, except that \<open>is_correct\<close> yields its marker when the empty string is itself one
  of the correct answers.
\<close>

theorem unresolved_lookup_is_empty:
  assumes "unresolved c item (base_of e)"
  shows "eval_pipe repr e c item =
           (if 124 \<in> set (strip e) \<and> pipe_op e \<in> {ascii ''is_correct'', ascii ''if_correct''} then
              (case correct_set c of
                 Inl err \<Rightarrow> Inl err
               | Inr correct \<Rightarrow>
                   Inr (if pipe_op e = ascii ''is_correct'' \<and> JStr [] \<in> set correct
                        then ascii ''+'' else []))
            else Inr [])"
proof (cases "124 \<in> set (strip e)")
  case False
  then show ?thesis
    using lookup_unresolved [OF assms, of repr] by (simp add: eval_no_bar base_of_no_bar)
next
  case True
  have ne: "ascii ''if_correct'' \<noteq> ascii ''is_correct''"
    by (simp add: ascii_def)
  show ?thesis
    using True ne lookup_unresolved [OF assms, of repr]
    by (auto simp: eval_bar split: sum.splits)
qed

text \<open>
  C10. For a base without a bar and an operator that, stripped, is neither
  \<open>is_correct\<close> nor \<open>if_correct\<close>, the expression \<open>base|operator\<close> evaluates to what the
  base evaluates to, and that is a value, not an exception.
\<close>

theorem unknown_pipe_is_identity:
  assumes "124 \<notin> set b" and "strip opr \<noteq> ascii ''is_correct''"
      and "strip opr \<noteq> ascii ''if_correct''"
  shows "eval_pipe repr (b @ 124 # opr) c item = eval_pipe repr b c item
       \<and> (\<exists>v. eval_pipe repr b c item = Inr v)"
proof -
  have nb: "124 \<notin> set (strip b)"
    using assms(1) set_strip by blast
  have bar: "124 \<in> set (strip (b @ 124 # opr))"
    by (simp add: strip_bar)
  have "eval_pipe repr (b @ 124 # opr) c item = Inr (lookup repr (strip b) c item)"
    using assms by (simp add: eval_bar [OF bar] base_of_bar pipe_op_bar)
  moreover have "eval_pipe repr b c item = Inr (lookup repr (strip b) c item)"
    by (rule eval_no_bar [OF nb])
  ultimately show ?thesis
    by simp
qed

lemmas json_eval = dget_def dget_default_def py_or_def jstr_def

lemma example_correct_set: "correct_set example_ctx = Inr [jstr ''2'']"
  by (simp add: correct_set_def example_ctx_def example_question_def json_eval ascii_def)

lemma blank_correct_set: "correct_set blank_answer_ctx = Inr [JStr []]"
  by (simp add: correct_set_def blank_answer_ctx_def blank_answer_question_def json_eval ascii_def)

theorem unresolved_lookup_is_empty_witness:
  "eval_pipe example_repr (ascii ''question.nosuch | if_correct'') example_ctx JNone = Inr []"
proof -
  let ?e = "ascii ''question.nosuch'' @ 124 # ascii ''if_correct''"
  have e: "ascii ''question.nosuch | if_correct'' = ascii ''question.nosuch '' @ 124 # ascii '' if_correct''"
    by (simp add: ascii_def)
  have n: "124 \<notin> set (ascii ''question.nosuch '')"
    by (simp add: ascii_def)
  have b: "base_of (ascii ''question.nosuch | if_correct'') = ascii ''question.nosuch''"
    unfolding e base_of_bar [OF n] by (simp add: str_eval ascii_def)
  have o: "pipe_op (ascii ''question.nosuch | if_correct'') = ascii ''if_correct''"
    unfolding e pipe_op_bar [OF n] by (simp add: str_eval ascii_def)
  have u: "unresolved example_ctx JNone (base_of (ascii ''question.nosuch | if_correct''))"
    unfolding b
    by (simp add: unresolved_def example_ctx_def example_question_def startswith_def ascii_def)
  show ?thesis
    using unresolved_lookup_is_empty [OF u, of example_repr] example_correct_set o
    by (simp add: jstr_def) (simp add: ascii_def)
qed

text \<open>
  C8 as stated fails: the base \<open>nosuch\<close> has none of the five forms, and the
  expression \<open>nosuch|is_correct\<close> evaluates to the marker for a question whose correct
  answer is the empty string.
\<close>

theorem marker_for_unknown_base_counterexample:
  "unknown_form (base_of (ascii ''nosuch|is_correct''))
   \<and> eval_pipe example_repr (ascii ''nosuch|is_correct'') blank_answer_ctx JNone = Inr (ascii ''+'')
   \<and> ascii ''+'' \<noteq> []"
proof -
  have e: "ascii ''nosuch|is_correct'' = ascii ''nosuch'' @ 124 # ascii ''is_correct''"
    by (simp add: ascii_def)
  have n: "124 \<notin> set (ascii ''nosuch'')"
    by (simp add: ascii_def)
  have b: "base_of (ascii ''nosuch|is_correct'') = ascii ''nosuch''"
    unfolding e base_of_bar [OF n] by (simp add: str_eval ascii_def)
  have o: "pipe_op (ascii ''nosuch|is_correct'') = ascii ''is_correct''"
    unfolding e pipe_op_bar [OF n] by (simp add: str_eval ascii_def)
  have bar: "124 \<in> set (strip (ascii ''nosuch|is_correct''))"
    unfolding e by (simp add: strip_bar)
  have u: "unknown_form (ascii ''nosuch'')"
    by (simp add: unknown_form_def startswith_def ascii_def)
  have l: "lookup example_repr (ascii ''nosuch'') blank_answer_ctx JNone = []"
    using u by (simp add: lookup_def unknown_form_def)
  have "eval_pipe example_repr (ascii ''nosuch|is_correct'') blank_answer_ctx JNone = Inr (ascii ''+'')"
    by (simp add: eval_bar [OF bar] o b l blank_correct_set)
  then show ?thesis
    using u b by (simp add: ascii_def)
qed

theorem unknown_pipe_is_identity_witness:
  "eval_pipe example_repr (ascii ''item'' @ 124 # ascii '' upper '') example_ctx (jstr ''x'')
     = eval_pipe example_repr (ascii ''item'') example_ctx (jstr ''x'')
   \<and> eval_pipe example_repr (ascii ''item'') example_ctx (jstr ''x'') = Inr (ascii ''x'')"
proof -
  have 1: "124 \<notin> set (ascii ''item'')"
    by (simp add: ascii_def)
  have 2: "strip (ascii '' upper '') \<noteq> ascii ''is_correct''"
    by (simp add: str_eval ascii_def)
  have 3: "strip (ascii '' upper '') \<noteq> ascii ''if_correct''"
    by (simp add: str_eval ascii_def)
  have s: "strip (ascii ''item'') = ascii ''item''"
    by (simp add: str_eval ascii_def)
  have 4: "124 \<notin> set (strip (ascii ''item''))"
    unfolding s by (rule 1)
  have "eval_pipe example_repr (ascii ''item'') example_ctx (jstr ''x'') = Inr (ascii ''x'')"
    unfolding eval_no_bar [OF 4] s
    by (simp add: lookup_def form_consts jstr_def)
  then show ?thesis
    using unknown_pipe_is_identity [OF 1 2 3, of example_repr example_ctx "jstr ''x''"] by simp
qed

section \<open>Properties of the template engine\<close>

lemma blank_label_parsed:
  "map_sum id correct_answers (parse_question_element example_lib blank_label_elem) = Inr [[]]"
  by (simp add: parse_question_element_def blank_label_elem_def xml_eval Let_def lib_eval
        str_eval dict_set_def truefalse_answers_def VERNO_def NEVERNO_def)

lemma map_of_dict_del: "map_of (dict_del d k) k' = (if k' = k then None else map_of d k')"
  by (induction d) (auto simp: dict_del_def)

lemma dget_dict_del: "dget (dict_del d k) k' = (if k' = k then JNone else dget d k')"
  by (simp add: dget_def map_of_dict_del)

lemma dget_default_dict_del:
  "dget_default (dict_del d k) k' v = (if k' = k then v else dget_default d k' v)"
  by (simp add: dget_default_def map_of_dict_del)

lemma key_names_differ:
  "ascii ''kind'' \<noteq> ascii ''col_widths_pct''" "ascii ''headers'' \<noteq> ascii ''col_widths_pct''"
  "ascii ''cols'' \<noteq> ascii ''col_widths_pct''" "ascii ''source'' \<noteq> ascii ''col_widths_pct''"
  by (simp_all add: ascii_def)

lemma kind_names_differ:
  "jstr ''table'' \<noteq> jstr ''line''" "jstr ''table'' \<noteq> jstr ''spacer''"
  "jstr ''table'' \<noteq> jstr ''list''"
  by (simp_all add: jstr_def ascii_def)

lemma render_table_block:
  "dget b (ascii ''kind'') = jstr ''table'' \<Longrightarrow>
   render_block repr c question (JDict b) =
     (let headers = list_items (py_or (dget b (ascii ''headers'')) (JList []));
          cols = list_items (py_or (dget b (ascii ''cols'')) (JList []));
          widths = list_items (py_or (dget b (ascii ''col_widths_pct'')) (JList []));
          items = source_items question (dget b (ascii ''source''));
          col_count = length cols
      in case width_style widths col_count of
           Inl e \<Rightarrow> Inl e
         | Inr ws \<Rightarrow>
             (let head_html =
                    (if headers \<noteq> [] \<and> length headers = col_count then
                       ascii ''<thead><tr>'' @ render_ths repr (zip ws headers)
                       @ ascii ''</tr></thead>''
                     else [])
              in case py_iter (py_or items (JList [JNone])) of
                   Inl e \<Rightarrow> Inl e
                 | Inr its \<Rightarrow>
                     (case render_rows repr c (zip ws cols) its of
                        Inl e \<Rightarrow> Inl e
                      | Inr rows_html \<Rightarrow>
                          Inr (Some (ascii ''<table>'' @ head_html @ ascii ''<tbody>''
                                     @ rows_html @ ascii ''</tbody></table>'')))))"
  by (simp add: render_block_def kind_names_differ)

text \<open>
  A table block whose width list is not as long as \<open>cols\<close> gives the node of the same
  block without the list.
\<close>

lemma table_block_without_widths:
  assumes "dget b (ascii ''kind'') = jstr ''table''"
      and "dget b (ascii ''cols'') = JList cols"
      and "dget b (ascii ''col_widths_pct'') = JList widths"
      and "length widths \<noteq> length cols"
  shows "render_block repr c question (JDict b)
           = render_block repr c question (JDict (dict_del b (ascii ''col_widths_pct'')))"
proof -
  let ?b' = "dict_del b (ascii ''col_widths_pct'')"
  have k: "dget ?b' (ascii ''kind'') = jstr ''table''"
    using assms(1) by (simp add: dget_dict_del key_names_differ)
  have w: "width_style (list_items (py_or (JList widths) (JList []))) (length (list_items (py_or (JList cols) (JList []))))
             = Inr (replicate (length (list_items (py_or (JList cols) (JList [])))) [])"
    using assms(4) by (auto simp: width_style_def py_or_def)
  have w': "width_style (list_items (py_or JNone (JList []))) n = Inr (replicate n [])" for n
    by (simp add: width_style_def py_or_def)
  show ?thesis
    unfolding render_table_block [OF assms(1)] render_table_block [OF k]
    by (simp add: dget_dict_del key_names_differ assms(2,3) w w' Let_def)
qed

lemmas render_eval = render_nodes_def render_question_html_def validate_template_config_v2_def
  validate_block_def headers_errors_def in_str_set_def KINDS_def SOURCES_def block_msg_def
  str_int_def get_question_view_def task_header_def render_block_def render_pattern_value_def
  source_items_def width_style_def render_ths_def expr_group_def html_escape_def replace_char_def
  esc_def template_error_def eval_no_bar eval_bar lookup_def base_of_def pipe_op_def
  correct_set_def json_eval dict_set_def dict_del_def str_eval Let_def

lemma zero_width_rendered:
  "render_question_html example_repr zero_width_config example_question example_metadata 1
     = Inr (one_cell_table ''width:0%'' ''2'')"
  by (simp add: zero_width_config_def zero_width_table_def example_question_def
        example_metadata_def one_cell_table_def render_eval ascii_def)

lemma unweighted_rendered:
  "render_question_html example_repr unweighted_config example_question example_metadata 1
     = Inr (one_cell_table [] ''2'')"
  by (simp add: unweighted_config_def zero_width_table_def example_question_def
        example_metadata_def one_cell_table_def render_eval ascii_def)

text \<open>
  C4 as stated fails for a sum of zero: the width list \<open>[0]\<close> of a table with one
  column gives the cell the style \<open>width:0%\<close>, where the table without the list has an
  empty style.
\<close>

theorem zero_sum_widths_counterexample:
  "render_question_html example_repr zero_width_config example_question example_metadata 1
     = Inr (one_cell_table ''width:0%'' ''2'')
   \<and> render_question_html example_repr unweighted_config example_question example_metadata 1
     = Inr (one_cell_table [] ''2'')
   \<and> render_question_html example_repr zero_width_config example_question example_metadata 1
     \<noteq> render_question_html example_repr unweighted_config example_question example_metadata 1"
  by (simp add: zero_width_rendered unweighted_rendered) (simp add: one_cell_table_def ascii_def)

lemma map_of_dict_set: "map_of (dict_set d k v) k' = (if k' = k then Some v else map_of d k')"
proof (cases "k \<in> fst ` set d")
  case False
  then have "map_of d k = None"
    by (rule map_of_key_missing)
  with False show ?thesis
    by (simp add: dict_set_def map_add_def split: option.splits)
next
  case True
  have "map_of (map (\<lambda>(a, b). if a = k then (a, v) else (a, b)) d) k'
          = (if k' = k then (if k \<in> fst ` set d then Some v else None) else map_of d k')"
    by (induction d) (force split: if_splits)+
  with True show ?thesis
    by (simp add: dict_set_def)
qed

lemma dget_dict_set: "dget (dict_set d k v) k' = (if k' = k then v else dget d k')"
  by (simp add: dget_def map_of_dict_set)

lemma dget_default_dict_set:
  "dget_default (dict_set d k v) k' w = (if k' = k then v else dget_default d k' w)"
  by (simp add: dget_default_def map_of_dict_set)

lemma validate_blocks_append:
  "validate_blocks repr i (xs @ ys) =
     (case validate_blocks repr i xs of
        Inl e \<Rightarrow> Inl e
      | Inr e1 \<Rightarrow>
          (case validate_blocks repr (i + length xs) ys of
             Inl e \<Rightarrow> Inl e
           | Inr e2 \<Rightarrow> Inr (e1 @ e2)))"
  by (induction xs arbitrary: i) (auto split: sum.splits)

lemma render_blocks_append:
  "render_blocks repr c question (xs @ ys) =
     (case render_blocks repr c question xs of
        Inl e \<Rightarrow> Inl e
      | Inr o1 \<Rightarrow>
          (case render_blocks repr c question ys of
             Inl e \<Rightarrow> Inl e
           | Inr o2 \<Rightarrow> Inr (o1 @ o2)))"
  by (induction xs) (auto split: sum.splits)

lemma width_texts_ints: "list_all is_int ws \<Longrightarrow> width_texts ws = Inr (map width_text ws)"
proof (induction ws)
  case Nil
  show ?case by simp
next
  case (Cons w ws)
  then have "py_int w = Inr (int_value w)"
    by (cases w) auto
  with Cons show ?case
    by (simp add: width_text_def)
qed

lemma table_block_styles:
  assumes "dget b (ascii ''kind'') = jstr ''table''"
  shows "render_block repr c question (JDict b) =
           (case width_style (list_items (py_or (dget b (ascii ''col_widths_pct'')) (JList [])))
                   (length (list_items (py_or (dget b (ascii ''cols'')) (JList [])))) of
              Inl e \<Rightarrow> Inl e
            | Inr ws \<Rightarrow> table_with_styles repr c question b ws)"
  by (simp add: render_table_block [OF assms] table_with_styles_def Let_def split: sum.splits)

lemma list_items_or: "list_items (py_or (JList xs) (JList [])) = xs"
  by (simp add: py_or_def)

lemma table_block_equal_length:
  assumes "dget b (ascii ''kind'') = jstr ''table''"
      and "dget b (ascii ''cols'') = JList cols"
      and "dget b (ascii ''col_widths_pct'') = JList widths"
      and "list_all is_int widths"
      and "length widths = length cols"
  shows "render_block repr c question (JDict b)
           = table_with_styles repr c question b (map width_text widths)"
proof -
  have "width_style widths (length cols) = Inr (map width_text widths)"
    using assms(4,5) by (cases "widths = []") (auto simp: width_style_def width_texts_ints)
  then show ?thesis
    by (simp add: table_block_styles [OF assms(1)] assms(2,3) list_items_or)
qed

lemma validate_block_without_widths:
  assumes "dget b (ascii ''kind'') = jstr ''table''"
      and "dget b (ascii ''col_widths_pct'') = JList widths"
      and "list_all is_int widths"
  shows "validate_block repr i (JDict (dict_del b (ascii ''col_widths_pct'')))
           = validate_block repr i (JDict b)"
proof -
  have k: "in_str_set (jstr ''table'') KINDS = Inr True"
    by (simp add: in_str_set_def KINDS_def jstr_def)
  have ne: "ascii ''pattern'' \<noteq> ascii ''col_widths_pct''" "ascii ''mm'' \<noteq> ascii ''col_widths_pct''"
    by (simp_all add: ascii_def)
  show ?thesis
    using assms
    by (simp add: validate_block_def dget_dict_del dget_default_dict_del key_names_differ ne k
          kind_names_differ Let_def split: sum.splits)
qed

text \<open>
  C4, as the code has it. Take a configuration with a table block whose
  \<open>col_widths_pct\<close> is a list of integers, which is what the validator admits. When the
  list is not as long as \<open>cols\<close>, the renderer ignores it: nodes and text are those of
  the same configuration without the list, no exception and no diagnostic of its own.
  When the list is as long as \<open>cols\<close>, it is applied as given, whatever its sum: the
  render is the one whose table has the style \<open>width:N%\<close> of each entry on its column.
\<close>

theorem widths_applied_by_length:
  assumes "dget c (ascii ''blocks'') = JList (pre @ JDict b # post)"
      and "dget b (ascii ''kind'') = jstr ''table''"
      and "dget b (ascii ''cols'') = JList cols"
      and "dget b (ascii ''col_widths_pct'') = JList widths"
      and "list_all is_int widths"
  shows "(length widths \<noteq> length cols \<longrightarrow>
            render_nodes repr (JDict c) question metadata n
              = render_nodes repr (without_widths c pre b post) question metadata n
          \<and> render_question_html repr (JDict c) question metadata n
              = render_question_html repr (without_widths c pre b post) question metadata n)
       \<and> (length widths = length cols \<longrightarrow>
            render_nodes repr (JDict c) question metadata n
              = render_nodes_styled repr c pre b post (map width_text widths) question metadata n)"
proof (intro conjI impI)
  let ?b' = "dict_del b (ascii ''col_widths_pct'')"
  let ?c' = "dict_set c (ascii ''blocks'') (JList (pre @ JDict ?b' # post))"
  have keys: "ascii ''version'' \<noteq> ascii ''blocks''" "ascii ''styles'' \<noteq> ascii ''blocks''"
    by (simp_all add: ascii_def)
  have v: "validate_template_config_v2 repr (JDict ?c') = validate_template_config_v2 repr (JDict c)"
    using assms(1) validate_block_without_widths [OF assms(2,4,5), of repr]
    by (simp add: validate_template_config_v2_def dget_dict_set dget_default_dict_set keys
          validate_blocks_append Let_def split: sum.splits)
  have bl: "list_items (py_or (dget c (ascii ''blocks'')) (JList [])) = pre @ JDict b # post"
    using assms(1) by (simp add: py_or_def)
  have bl': "list_items (py_or (dget ?c' (ascii ''blocks'')) (JList [])) = pre @ JDict ?b' # post"
    by (simp add: dget_dict_set py_or_def)
  {
    assume ne: "length widths \<noteq> length cols"
    have eq: "render_block repr cx question (JDict ?b') = render_block repr cx question (JDict b)" for cx
      using table_block_without_widths [OF assms(2,3,4) ne, of repr cx question] by simp
    have rb: "render_blocks repr cx question (pre @ JDict ?b' # post)
                = render_blocks repr cx question (pre @ JDict b # post)" for cx
      by (simp add: render_blocks_append eq split: sum.splits)
    show n: "render_nodes repr (JDict c) question metadata n
              = render_nodes repr (without_widths c pre b post) question metadata n"
      unfolding render_nodes_def without_widths_def v
      by (simp add: bl bl' rb del: dict_or_empty.simps split: sum.splits) (simp add: bl bl' rb)
    show "render_question_html repr (JDict c) question metadata n
              = render_question_html repr (without_widths c pre b post) question metadata n"
      by (simp add: render_question_html_def n)
  }
  {
    assume e: "length widths = length cols"
    show "render_nodes repr (JDict c) question metadata n
              = render_nodes_styled repr c pre b post (map width_text widths) question metadata n"
      unfolding render_nodes_def render_nodes_styled_def
      by (simp add: bl render_blocks_append table_block_equal_length [OF assms(2,3,4,5) e] Let_def
            split: sum.splits option.splits)
  }
qed

lemma long_width_rendered:
  "render_question_html example_repr (JDict long_width_config) example_question example_metadata 1
     = Inr (one_cell_table [] ''2'')"
  by (simp add: long_width_config_def long_width_table_def example_question_def
        example_metadata_def one_cell_table_def render_eval ascii_def)

lemma zero_width_nodes:
  "render_nodes example_repr (JDict zero_width_dict) example_question example_metadata 1
     = Inr [one_cell_table ''width:0%'' ''2'']"
  by (simp add: zero_width_dict_def zero_width_table_def example_question_def
        example_metadata_def one_cell_table_def render_eval ascii_def)

theorem widths_applied_by_length_witness:
  "render_nodes example_repr (JDict long_width_config) example_question example_metadata 1
     = render_nodes example_repr (without_widths long_width_config [] long_width_table [])
         example_question example_metadata 1
   \<and> render_question_html example_repr (JDict long_width_config) example_question
         example_metadata 1
     = render_question_html example_repr (without_widths long_width_config [] long_width_table [])
         example_question example_metadata 1
   \<and> without_widths long_width_config [] long_width_table [] = unweighted_config
   \<and> render_question_html example_repr (JDict long_width_config) example_question
         example_metadata 1
     = Inr (one_cell_table [] ''2'')
   \<and> render_nodes example_repr (JDict zero_width_dict) example_question example_metadata 1
     = render_nodes_styled example_repr zero_width_dict [] zero_width_table []
         (map width_text [JInt 0]) example_question example_metadata 1
   \<and> map width_text [JInt 0] = [ascii ''width:0%'']
   \<and> render_nodes example_repr (JDict zero_width_dict) example_question example_metadata 1
     = Inr [one_cell_table ''width:0%'' ''2'']"
proof -
  have l1: "dget long_width_config (ascii ''blocks'') = JList ([] @ JDict long_width_table # [])"
    by (simp add: long_width_config_def json_eval ascii_def)
  have l2: "dget long_width_table (ascii ''kind'') = jstr ''table''"
    by (simp add: long_width_table_def json_eval ascii_def)
  have l3: "dget long_width_table (ascii ''cols'') = JList [jstr ''{{item}}'']"
    by (simp add: long_width_table_def json_eval ascii_def)
  have l4: "dget long_width_table (ascii ''col_widths_pct'') = JList [JInt 10, JInt 90]"
    by (simp add: long_width_table_def json_eval ascii_def)
  have l5: "list_all is_int [JInt 10, JInt 90]"
    by simp
  have ne: "length [JInt 10, JInt 90] \<noteq> length [jstr ''{{item}}'']"
    by simp
  have z1: "dget zero_width_dict (ascii ''blocks'') = JList ([] @ JDict zero_width_table # [])"
    by (simp add: zero_width_dict_def json_eval ascii_def)
  have z2: "dget zero_width_table (ascii ''kind'') = jstr ''table''"
    by (simp add: zero_width_table_def json_eval ascii_def)
  have z3: "dget zero_width_table (ascii ''cols'') = JList [jstr ''{{item}}'']"
    by (simp add: zero_width_table_def json_eval ascii_def)
  have z4: "dget zero_width_table (ascii ''col_widths_pct'') = JList [JInt 0]"
    by (simp add: zero_width_table_def json_eval ascii_def)
  have z5: "list_all is_int [JInt 0]"
    by simp
  have eq: "length [JInt 0] = length [jstr ''{{item}}'']"
    by simp
  have u: "without_widths long_width_config [] long_width_table [] = unweighted_config"
    by (simp add: without_widths_def unweighted_config_def long_width_config_def
          long_width_table_def zero_width_table_def dict_set_def dict_del_def ascii_def)
  have w: "map width_text [JInt 0] = [ascii ''width:0%'']"
    by (simp add: width_text_def str_int_def ascii_def)
  show ?thesis
    using widths_applied_by_length [OF l1 l2 l3 l4 l5, of example_repr example_question
        example_metadata 1]
      widths_applied_by_length [OF z1 z2 z3 z4 z5, of example_repr example_question
        example_metadata 1]
      ne eq u w long_width_rendered zero_width_nodes
    by simp
qed

lemmas preset_eval = preset_table_default_def default_styles_def head_blocks_def

lemma table_presets_rejected:
  "validate_template_config_v2 repr (preset_table_default (ascii ''shortanswer''))
     = Inr [ascii ''blocks[3].cols must contain non-empty strings'']"
  "validate_template_config_v2 repr (preset_table_default (ascii ''multichoice''))
     = Inr [ascii ''blocks[3].cols must contain non-empty strings'']"
  "validate_template_config_v2 repr (preset_table_default (ascii ''matching''))
     = Inr [ascii ''blocks[3].cols must contain non-empty strings'']"
  "validate_template_config_v2 repr (preset_table_default (ascii ''truefalse''))
     = Inr [ascii ''blocks[3].cols must contain non-empty strings'']"
  by (simp_all add: preset_eval render_eval ascii_def)

lemma essay_preset_accepted:
  "validate_template_config_v2 repr (preset_table_default (ascii ''essay'')) = Inr []"
  by (simp add: preset_eval render_eval REFERENCE_LABEL_def ascii_def)

lemma migrate_empty:
  "migrate_v1_to_v2 [] t = Inr (preset_table_default t)"
  by (simp add: migrate_v1_to_v2_def preset_eval json_eval dict_set_def Let_def ascii_def)

text \<open>
  C1 fails on the code. For the empty legacy configuration the migration returns the
  preset, and for each of the four types with a table preset the validator rejects it:
  the preset has empty strings in \<open>cols\<close>, which the validator does not accept. (For
  \<open>essay\<close> the result validates.)
\<close>

theorem migrated_presets_rejected:
  "migrate_v1_to_v2 [] (ascii ''shortanswer'') = Inr (preset_table_default (ascii ''shortanswer''))
   \<and> migrate_v1_to_v2 [] (ascii ''multichoice'') = Inr (preset_table_default (ascii ''multichoice''))
   \<and> migrate_v1_to_v2 [] (ascii ''matching'') = Inr (preset_table_default (ascii ''matching''))
   \<and> migrate_v1_to_v2 [] (ascii ''truefalse'') = Inr (preset_table_default (ascii ''truefalse''))
   \<and> validate_template_config_v2 repr (preset_table_default (ascii ''shortanswer''))
       = Inr [ascii ''blocks[3].cols must contain non-empty strings'']
   \<and> validate_template_config_v2 repr (preset_table_default (ascii ''multichoice''))
       = Inr [ascii ''blocks[3].cols must contain non-empty strings'']
   \<and> validate_template_config_v2 repr (preset_table_default (ascii ''matching''))
       = Inr [ascii ''blocks[3].cols must contain non-empty strings'']
   \<and> validate_template_config_v2 repr (preset_table_default (ascii ''truefalse''))
       = Inr [ascii ''blocks[3].cols must contain non-empty strings'']"
  by (simp only: migrate_empty table_presets_rejected simp_thms)

text \<open>
  The same for every legacy configuration: whenever the migration returns (its \<open>int\<close>
  conversions do not raise), the validator rejects the result for the four types with a
  table preset, with that one error, and accepts it for every other type.
\<close>

lemma list_all_is_int_JInt: "list_all is_int (map JInt ns)"
  by (induction ns) auto

lemma migrated_table_preset_rejected:
  assumes "t \<in> {ascii ''shortanswer'', ascii ''multichoice'', ascii ''matching'', ascii ''truefalse''}"
      and "migrate_v1_to_v2 v1 t = Inr cfg"
  shows "validate_template_config_v2 repr cfg
           = Inr [ascii ''blocks[3].cols must contain non-empty strings'']"
proof -
  from assms(1) consider "t = ascii ''shortanswer''" | "t = ascii ''multichoice''"
    | "t = ascii ''matching''" | "t = ascii ''truefalse''"
    by auto
  then show ?thesis
  proof cases
    case 1
    show ?thesis
      using assms(2) unfolding 1
      by (auto simp: migrate_v1_to_v2_def preset_eval render_eval list_all_is_int_JInt ascii_def
          simp del: overlay_sizes.simps split: sum.splits if_splits)
  next
    case 2
    show ?thesis
      using assms(2) unfolding 2
      by (auto simp: migrate_v1_to_v2_def preset_eval render_eval list_all_is_int_JInt ascii_def
          simp del: overlay_sizes.simps split: sum.splits if_splits)
  next
    case 3
    show ?thesis
      using assms(2) unfolding 3
      by (auto simp: migrate_v1_to_v2_def preset_eval render_eval list_all_is_int_JInt ascii_def
          simp del: overlay_sizes.simps split: sum.splits if_splits)
  next
    case 4
    show ?thesis
      using assms(2) unfolding 4
      by (auto simp: migrate_v1_to_v2_def preset_eval render_eval list_all_is_int_JInt ascii_def
          simp del: overlay_sizes.simps split: sum.splits if_splits)
  qed
qed

lemma migrated_line_preset_accepted:
  assumes "t \<notin> {ascii ''shortanswer'', ascii ''multichoice'', ascii ''matching'', ascii ''truefalse''}"
      and "migrate_v1_to_v2 v1 t = Inr cfg"
  shows "validate_template_config_v2 repr cfg = Inr []"
proof -
  have p: "preset_table_default t =
        JDict [(ascii ''version'', JInt 2), (ascii ''styles'', default_styles),
               (ascii ''blocks'', JList (head_blocks @
                  [JDict [(ascii ''kind'', jstr ''line''),
                          (ascii ''pattern'',
                           JStr (REFERENCE_LABEL @ ascii ''{{question.reference_answer}}''))]]))]"
    using assms(1) by (simp add: preset_table_default_def)
  show ?thesis
    using assms(2) unfolding migrate_v1_to_v2_def p
    by (auto simp: default_styles_def head_blocks_def render_eval REFERENCE_LABEL_def ascii_def
        simp del: overlay_sizes.simps split: sum.splits if_splits)
qed

text \<open>
  C2 fails on the code. For each of the four types with a table preset, and for every
  question and metadata, the render of the default preset is the single diagnostic node
  with the validator's error. (For \<open>essay\<close> the render has four nodes and no
  diagnostic.)
\<close>

theorem table_presets_render_diagnostic:
  "render_nodes repr (preset_table_default (ascii ''shortanswer'')) question metadata n
     = Inr [template_error [ascii ''blocks[3].cols must contain non-empty strings'']]
   \<and> render_nodes repr (preset_table_default (ascii ''multichoice'')) question metadata n
     = Inr [template_error [ascii ''blocks[3].cols must contain non-empty strings'']]
   \<and> render_nodes repr (preset_table_default (ascii ''matching'')) question metadata n
     = Inr [template_error [ascii ''blocks[3].cols must contain non-empty strings'']]
   \<and> render_nodes repr (preset_table_default (ascii ''truefalse'')) question metadata n
     = Inr [template_error [ascii ''blocks[3].cols must contain non-empty strings'']]"
  by (simp add: render_nodes_def table_presets_rejected)

lemma essay_preset_rendered:
  "\<exists>out. render_nodes example_repr (preset_table_default (ascii ''essay'')) example_question
            example_metadata 1 = Inr out
         \<and> length out = 4 \<and> template_error [] \<notin> set out"
  by (simp add: preset_eval example_question_def example_metadata_def render_eval
        REFERENCE_LABEL_def TASK_WORD_def PK_def IPK_def ascii_def)

end
